theory Spec2Isabelle
  imports Main
begin

section \<open>Data model of the evaluator (src/src/evaluator.ts)\<close>

text \<open>
  Errors are values.  The three JavaScript error classes the evaluator can raise are kept
  apart; the message of each \<open>throw\<close> of the source is one constructor of \<open>message\<close>.
  \<open>TypeError\<close> is the runtime's own error for a property access on \<open>undefined\<close> or
  \<open>null\<close> and for a call of something that is no function; \<open>RangeError\<close> is the one
  it throws when the call stack is exhausted.  \<open>External\<close> stands for whatever an imported
  function (Tensor, MultiArray, ComplexDecimal) throws.
\<close>

datatype message =
    ReadOnly string
  | InvalidLeft
  | IncDecUndefined
  | InvalidIncDec string
  | ComputedMultiple
  | ElementUndefined nat
  | MustBeDefinedFirst string
  | CannotBeFunction string
  | WithoutArguments string
  | UndefinedName string
  | IndeterminateEnd
  | IndeterminateColon
  | InvalidCall string
  | InvalidIndexing
  | InvalidArity string
  | UndefinedType
  | External string

datatype error = EvalError message | SyntaxError message | TypeError | RangeError

text \<open>
  AST nodes.  Every object node carries the identity \<open>nid\<close> of the JavaScript object, because
  the evaluator writes the \<open>parent\<close> and \<open>index\<close> properties of nodes it shares with the
  name table; those properties live in the store of the state below.  \<open>Undefined\<close> and
  \<open>Null\<close> are the two JavaScript non-objects a child position can hold.  All operation nodes
  built by \<open>nodeOp\<close> are \<open>Op nid type left right\<close>, a missing operand being \<open>Undefined\<close>;
  the nodes of \<open>nodeReserved\<close> (ENDRANGE, colon, tilde) and the INVALID node are
  \<open>Reserved nid type\<close>.  The payload of a ComplexDecimal is abstracted to two integers; its
  \<open>type\<close> (the number class) is a number.  A MultiArray has \<open>dim\<close>, \<open>array\<close> and a
  \<open>type\<close> that the source compares with a number class, so it is a number as well.  A
  CharString is taken to have no \<open>type\<close>.  \<open>Foreign k\<close> is an object of the runtime that is
  neither a node nor a value: the member \<open>k\<close> of \<open>Object.prototype\<close>, which a lookup in a
  table finds under a key the table does not own.
\<close>

datatype node =
    Undefined
  | Null
  | Number int int int
  | String string
  | Tensor "nat list" "node list list" int
  | NAME nat string
  | ARG nat node "node list"
  | Op nat string node node
  | LIST nat "node list"
  | RANGE nat node node node
  | RETLIST nat "nat \<Rightarrow> nat \<Rightarrow> error + node"
  | Reserved nat string
  | CmdWList nat string "node list"
  | Foreign string

datatype jstype = TStr string | TNum int | TUndef

fun node_type :: "node \<Rightarrow> jstype" where
  "node_type (Number re im t) = TNum t"
| "node_type (Tensor d a t) = TNum t"
| "node_type (NAME n i) = TStr ''NAME''"
| "node_type (ARG n e as) = TStr ''ARG''"
| "node_type (Op n t l r) = TStr t"
| "node_type (LIST n xs) = TStr ''LIST''"
| "node_type (RANGE n a b c) = TStr ''RANGE''"
| "node_type (RETLIST n sel) = TStr ''RETLIST''"
| "node_type (Reserved n t) = TStr t"
| "node_type (CmdWList n i ws) = TStr ''CmdWList''"
| "node_type _ = TUndef"

fun isNumber :: "node \<Rightarrow> bool" where
  "isNumber (Number re im t) = True"
| "isNumber _ = False"

fun isString :: "node \<Rightarrow> bool" where
  "isString (String s) = True"
| "isString _ = False"

fun isTensor :: "node \<Rightarrow> bool" where
  "isTensor (Tensor d a t) = True"
| "isTensor _ = False"

text \<open>\<open>x\<close> is an object: a property can be read from it and written to it.\<close>

fun isObject :: "node \<Rightarrow> bool" where
  "isObject Undefined = False"
| "isObject Null = False"
| "isObject _ = True"

fun isUndefined :: "node \<Rightarrow> bool" where
  "isUndefined Undefined = True"
| "isUndefined _ = False"

text \<open>JavaScript truthiness of a child position (every object is truthy).\<close>

abbreviation truthy :: "node \<Rightarrow> bool" where
  "truthy x \<equiv> isObject x"

text \<open>
  \<open>x.id\<close> as a property key: the \<open>id\<close> of a NAME or CmdWList node; reading it from any
  other object gives \<open>undefined\<close>, which as a key is the string \<open>undefined\<close>.
\<close>

fun id_key :: "node \<Rightarrow> string" where
  "id_key (NAME n i) = i"
| "id_key (CmdWList n i ws) = i"
| "id_key _ = ''undefined''"

text \<open>An entry of the name table.\<close>

record entry =
  args :: "node list"
  expr :: node

text \<open>
  The tables (\<open>nameTable\<close>, \<open>baseFunctionTable\<close>, \<open>localTable\<close> and its frames) are plain
  JavaScript objects created by \<open>{}\<close>.  A map holds the own properties of each.  A key that
  is no own property is still found by \<open>in\<close> and by \<open>table[key]\<close> when \<open>Object.prototype\<close>
  has it: these are the keys \<open>protoKeys\<close>, and what is found is a function of the runtime
  (the prototype object itself under \<open>__proto__\<close>), an object with no \<open>args\<close> and no
  \<open>expr\<close>.
\<close>

definition protoKeys :: "string list" where
  "protoKeys = [''constructor'', ''__defineGetter__'', ''__defineSetter__'', ''hasOwnProperty'',
     ''__lookupGetter__'', ''__lookupSetter__'', ''isPrototypeOf'', ''propertyIsEnumerable'',
     ''toString'', ''valueOf'', ''__proto__'', ''toLocaleString'']"

text \<open>
  What \<open>this.nameTable[key]\<close> finds.  A store \<open>this.nameTable['__proto__'] = entry\<close> makes the
  entry the prototype of the table instead of an own property; the model keeps it in the
  map under that key, where a later read of the key finds it as the runtime does.  While
  it is there the table also inherits the two properties of that entry: \<open>args\<close>, an array,
  and \<open>expr\<close>, the node of the entry.
\<close>

datatype found = NoValue | OwnEntry entry | Member | ProtoExpr node

definition tableGet :: "(string \<rightharpoonup> entry) \<Rightarrow> string \<Rightarrow> found" where
  "tableGet nt key =
     (case nt key of
        Some en \<Rightarrow> OwnEntry en
      | None \<Rightarrow>
          (case nt ''__proto__'' of
             Some p \<Rightarrow>
               if key = ''args'' then Member
               else if key = ''expr'' then ProtoExpr (expr p)
               else if key \<in> set protoKeys then Member else NoValue
           | None \<Rightarrow> if key \<in> set protoKeys then Member else NoValue))"

text \<open>\<open>key in this.nameTable\<close>\<close>

fun tableIn :: "found \<Rightarrow> bool" where
  "tableIn NoValue = False"
| "tableIn f = True"

text \<open>\<open>typeof this.nameTable[key] !== 'undefined'\<close>\<close>

fun tableDefined :: "found \<Rightarrow> bool" where
  "tableDefined NoValue = False"
| "tableDefined (ProtoExpr v) = (\<not> isUndefined v)"
| "tableDefined f = True"

text \<open>
  \<open>this.nameTable[key].args\<close> where the source goes on to read \<open>length\<close> or an element of
  it: a TypeError when nothing is found or what is found has no \<open>args\<close>.  Of the nodes only
  an ARG and a CmdWList node have the property.
\<close>

fun foundArgs :: "found \<Rightarrow> error + node list" where
  "foundArgs (OwnEntry en) = Inr (args en)"
| "foundArgs (ProtoExpr (ARG n e as)) = Inr as"
| "foundArgs (ProtoExpr (CmdWList n i ws)) = Inr ws"
| "foundArgs f = Inl TypeError"

text \<open>
  \<open>this.nameTable[key].expr\<close>: a TypeError when nothing is found, \<open>undefined\<close> when what is
  found has no \<open>expr\<close>.  Of the nodes only an ARG node has the property.
\<close>

fun foundExpr :: "found \<Rightarrow> error + node" where
  "foundExpr NoValue = Inl TypeError"
| "foundExpr (OwnEntry en) = Inr (expr en)"
| "foundExpr Member = Inr Undefined"
| "foundExpr (ProtoExpr (ARG n e as)) = Inr e"
| "foundExpr (ProtoExpr v) = (if isObject v then Inr Undefined else Inl TypeError)"

text \<open>
  \<open>this.nameTable[key].expr = v\<close>, which the source does only after it has read a truthy
  \<open>expr\<close> there: the entry found, or the ARG node that a prototype entry holds, is updated
  in place.
\<close>

fun setExpr :: "(string \<rightharpoonup> entry) \<Rightarrow> string \<Rightarrow> found \<Rightarrow> node \<Rightarrow> (string \<rightharpoonup> entry)" where
  "setExpr nt key (OwnEntry en) v = nt(key \<mapsto> en\<lparr>expr := v\<rparr>)"
| "setExpr nt key (ProtoExpr (ARG n e as)) v =
     (case nt ''__proto__'' of
        Some p \<Rightarrow> nt(''__proto__'' \<mapsto> p\<lparr>expr := ARG n v as\<rparr>)
      | None \<Rightarrow> nt)"
| "setExpr nt key f v = nt"

text \<open>
  The \<open>parent\<close> property of an object: a reference to another object, of which the type,
  the key of its callee and the number of its arguments are recorded (they never change
  for a node that is a parent), or \<open>null\<close>.  A node without the property reads
  \<open>undefined\<close>: it has no entry in \<open>parents\<close>.
\<close>

datatype link = LNull | LRef nat jstype string nat

text \<open>
  An entry of the built-in function table.  Its \<open>unparserML\<close> is either one of the
  templates of \<open>unparseMLFunctions\<close>, named by its key, or a renderer supplied with
  \<open>externalFunctionTable\<close>.
\<close>

datatype mlrender = MLTemplate string | MLExternal "node \<Rightarrow> error + string"

record base_entry =
  mapper :: "bool option"
  ev_flags :: "bool list"
  unparserML_of :: "mlrender option"

record state =
  nameTable :: "string \<rightharpoonup> entry"
  readonlyNameTable :: "string list"
  baseFunctionTable :: "string \<rightharpoonup> base_entry"
  localTable :: "string \<rightharpoonup> (nat \<times> (string \<rightharpoonup> node))"
  commandsTable :: "string list"
  commandWordListTable :: "string list"
  exitStatus :: int
  parents :: "nat \<rightharpoonup> link"
  indexes :: "nat \<rightharpoonup> nat"
  fresh :: nat

text \<open>
  The imported functions whose source is not part of this file are parameters of the
  model: the operators of \<open>Tensor\<close>, the functions of \<open>MultiArray\<close> and the constants table.
\<close>

text \<open>
  The outcome of a piece of evaluation: the value returned or the error thrown, with the
  state as the mutations made so far leave it; \<open>None\<close> when the evaluation never returns
  (the loop of case ENDRANGE on a cyclic chain of parents).
\<close>

type_synonym 'a res = "((error + 'a) \<times> state) option"

type_synonym evaluator = "state \<Rightarrow> node \<Rightarrow> bool \<Rightarrow> string \<Rightarrow> node res"

record ext =
  constantsTable :: "(string \<times> node) list"
  nativeValue :: "string \<Rightarrow> node"
  cd_one :: node
  tensorFn :: "string \<Rightarrow> node \<Rightarrow> node \<Rightarrow> error + node"
  tensorCopy :: "node \<Rightarrow> error + node"
  aliasName :: "string \<Rightarrow> string"
  unparseNumber :: "node \<Rightarrow> error + string"
  unparseString :: "node \<Rightarrow> error + string"
  unparseTensor :: "nat list \<Rightarrow> string list list \<Rightarrow> error + string"
  unparseNumberML :: "node \<Rightarrow> error + string"
  unparseStringML :: "node \<Rightarrow> error + string"
  unparseTensorML :: "nat list \<Rightarrow> string list list \<Rightarrow> error + string"
  substSymbol :: "string \<Rightarrow> error + string"
  binOp :: "string \<Rightarrow> node \<Rightarrow> node \<Rightarrow> error + node"
  unOp :: "string \<Rightarrow> node \<Rightarrow> error + node"
  evaluateTensor :: "evaluator \<Rightarrow> state \<Rightarrow> node \<Rightarrow> bool \<Rightarrow> string \<Rightarrow> node res"
  expandRange :: "node \<Rightarrow> node \<Rightarrow> node \<Rightarrow> error + node"
  newNumber :: "int \<Rightarrow> node"
  linearLength :: "node \<Rightarrow> error + int"
  getDimension :: "node \<Rightarrow> nat option \<Rightarrow> error + int"
  logicalClass :: int
  linearize :: "node \<Rightarrow> error + node"
  toTensor :: "node \<Rightarrow> error + node"
  getItems :: "node \<Rightarrow> string \<Rightarrow> node list \<Rightarrow> error + node"
  getItemsLogical :: "node \<Rightarrow> string \<Rightarrow> node \<Rightarrow> error + node"
  setItems :: "(string \<rightharpoonup> entry) \<Rightarrow> string \<Rightarrow> node list \<Rightarrow> node
                \<Rightarrow> error + (string \<rightharpoonup> entry)"
  setItemsLogical :: "(string \<rightharpoonup> entry) \<Rightarrow> string \<Rightarrow> node \<Rightarrow> node
                \<Rightarrow> error + (string \<rightharpoonup> entry)"
  callFunc :: "string \<Rightarrow> node list \<Rightarrow> error + node"
  mapTensor :: "string \<Rightarrow> node \<Rightarrow> error + node"
  cmdWordFunc :: "string \<Rightarrow> node list \<Rightarrow> error option"

section \<open>Name table: seeding, Restart and Clear\<close>

text \<open>The keys of \<open>nativeNameTable\<close>, in the order of the object literal.\<close>

definition nativeNames :: "string list" where
  "nativeNames = [''false'', ''true'', ''i'', ''I'', ''j'', ''J'', ''e'', ''pi'',
     ''inf'', ''Inf'', ''nan'', ''NaN'']"

text \<open>One iteration of either loop of \<open>loadNativeTable\<close>: bind the name, push it.\<close>

definition seed :: "state \<Rightarrow> string \<times> node \<Rightarrow> state" where
  "seed st p = st\<lparr>nameTable := (nameTable st)(fst p \<mapsto> \<lparr>args = [], expr = snd p\<rparr>),
                 readonlyNameTable := readonlyNameTable st @ [fst p]\<rparr>"

definition loadNativeTable :: "ext \<Rightarrow> state \<Rightarrow> state" where
  "loadNativeTable x st =
     foldl seed (foldl seed st (map (\<lambda>name. (name, nativeValue x name)) nativeNames))
       (constantsTable x)"

definition Restart :: "ext \<Rightarrow> state \<Rightarrow> state" where
  "Restart x st =
     loadNativeTable x (st\<lparr>nameTable := Map.empty, localTable := Map.empty,
                            readonlyNameTable := []\<rparr>)"

definition clear_one :: "state \<Rightarrow> string \<Rightarrow> state" where
  "clear_one st name =
     (if name \<notin> set (readonlyNameTable st)
      then st\<lparr>nameTable := (nameTable st)(name := None),
              baseFunctionTable := (baseFunctionTable st)(name := None)\<rparr>
      else st)"

definition Clear :: "ext \<Rightarrow> state \<Rightarrow> string list \<Rightarrow> state" where
  "Clear x st names = (if length names = 0 then Restart x st else foldl clear_one st names)"

text \<open>
  The tables as the constructor leaves them: the field initialisers, then
  \<open>loadNativeTable\<close>.  The built-in function table the constructor fills from the
  imported catalogues is the parameter \<open>bft\<close>.
\<close>

definition initialize :: "ext \<Rightarrow> (string \<rightharpoonup> base_entry) \<Rightarrow> string list \<Rightarrow> state" where
  "initialize x bft cmds =
     loadNativeTable x \<lparr>nameTable = Map.empty, readonlyNameTable = [],
       baseFunctionTable = bft, localTable = Map.empty, commandsTable = cmds,
       commandWordListTable = [], exitStatus = 0, parents = Map.empty, indexes = Map.empty, fresh = 0\<rparr>"

section \<open>Increment and decrement\<close>

text \<open>
  \<open>incDecOp(pre, operation)\<close> applied to the operand node.  \<open>this.nameTable[tree.id].expr\<close>
  on an unbound name is a property read from \<open>undefined\<close>; on a name the table inherits it
  is \<open>undefined\<close>, and the source takes the name for one without a value.  Only the
  \<open>expr\<close> field of the entry is replaced.
\<close>

definition incDecOp :: "ext \<Rightarrow> bool \<Rightarrow> string \<Rightarrow> state \<Rightarrow> node \<Rightarrow> (error + node) \<times> state" where
  "incDecOp x pre operation st tree =
     (if \<not> isObject tree then (Inl TypeError, st)
      else if node_type tree = TStr ''NAME'' then
        (let f = tableGet (nameTable st) (id_key tree) in
         case foundExpr f of
           Inl e \<Rightarrow> (Inl e, st)
         | Inr ex \<Rightarrow>
             if truthy ex then
               (if pre then
                  (case tensorFn x operation ex (cd_one x) of
                     Inl e \<Rightarrow> (Inl e, st)
                   | Inr v \<Rightarrow>
                       (Inr v, st\<lparr>nameTable := setExpr (nameTable st) (id_key tree) f v\<rparr>))
                else
                  (case tensorCopy x ex of
                     Inl e \<Rightarrow> (Inl e, st)
                   | Inr val \<Rightarrow>
                       (case tensorFn x operation ex (cd_one x) of
                          Inl e \<Rightarrow> (Inl e, st)
                        | Inr v \<Rightarrow>
                            (Inr val,
                             st\<lparr>nameTable := setExpr (nameTable st) (id_key tree) f v\<rparr>))))
             else (Inl (EvalError IncDecUndefined), st))
      else (Inl (SyntaxError (InvalidIncDec operation)), st))"

section \<open>Left-hand sides of assignments\<close>

text \<open>The first throw of a \<open>map\<close> callback ends the map.\<close>

fun sequence :: "(error + 'a) list \<Rightarrow> error + 'a list" where
  "sequence [] = Inr []"
| "sequence (Inl e # rs) = Inl e"
| "sequence (Inr v # rs) = (case sequence rs of Inl e \<Rightarrow> Inl e | Inr vs \<Rightarrow> Inr (v # vs))"

type_synonym target = "node \<times> string \<times> node list"

text \<open>
  The first three branches of \<open>validateAssignment\<close>, which do not depend on \<open>shallow\<close>;
  \<open>None\<close> when none of them applies.
\<close>

fun validateTarget :: "state \<Rightarrow> node \<Rightarrow> (error + target) option" where
  "validateTarget st Undefined = Some (Inl TypeError)"
| "validateTarget st Null = Some (Inl TypeError)"
| "validateTarget st (NAME n i) =
     Some (if i \<in> set (readonlyNameTable st) then Inl (EvalError (ReadOnly i))
           else Inr (NAME n i, i, []))"
| "validateTarget st (ARG n e as) =
     (if \<not> isObject e then Some (Inl TypeError)
      else if node_type e = TStr ''NAME'' then
        Some (if id_key e \<in> set (readonlyNameTable st) then Inl (EvalError (ReadOnly (id_key e)))
              else Inr (e, id_key e, as))
      else None)"
| "validateTarget st (Reserved n t) =
     (if t = ''<~>'' then Some (Inr (Null, ''~'', [])) else None)"
| "validateTarget st t = None"

fun validateAssignment :: "state \<Rightarrow> node \<Rightarrow> bool \<Rightarrow> error + target list" where
  "validateAssignment st tree shallow =
     (case validateTarget st tree of
        Some (Inl e) \<Rightarrow> Inl e
      | Some (Inr t) \<Rightarrow> Inr [t]
      | None \<Rightarrow>
          (case tree of
             Tensor d a ty \<Rightarrow>
               if shallow \<and> d \<noteq> [] \<and> hd d = 1 then
                 (case a of
                    [] \<Rightarrow> Inl TypeError
                  | row # rows \<Rightarrow>
                      sequence (map (\<lambda>left.
                        case validateTarget st left of
                          Some r \<Rightarrow> r
                        | None \<Rightarrow> Inl (EvalError InvalidLeft)) row))
               else Inl (EvalError InvalidLeft)
           | _ \<Rightarrow> Inl (EvalError InvalidLeft)))"

section \<open>Operator names\<close>

definition bs :: string where
  "bs = [CHR 0x5C]"

definition sq :: string where
  "sq = [CHR 0x27]"

definition nl :: string where
  "nl = [CHR 0x0A]"

definition binary_ops :: "string list" where
  "binary_ops = [''+'', ''-'', ''.*'', ''*'', ''./'', ''/'', ''.'' @ bs, bs, ''.^'', ''^'',
     ''.**'', ''**'', ''<'', ''<='', ''=='', ''>='', ''>'', ''!='', ''~='', ''&'', ''|'', ''&&'',
     ''||'']"

definition assign_ops :: "string list" where
  "assign_ops = [''='', ''+='', ''-='', ''*='', ''/='', bs @ ''='', ''^='', ''**='', ''.*='',
     ''./='', ''.'' @ bs @ ''='', ''.^='', ''.**='', ''&='', ''|='']"

section \<open>Unparse\<close>

abbreviation bindS :: "error + 'a \<Rightarrow> ('a \<Rightarrow> error + 'b) \<Rightarrow> error + 'b" where
  "bindS m f \<equiv> (case m of Inl e \<Rightarrow> Inl e | Inr v \<Rightarrow> f v)"

fun join :: "string \<Rightarrow> string list \<Rightarrow> string" where
  "join sep [] = []"
| "join sep [w] = w"
| "join sep (w # v # ws) = w @ sep @ join sep (v # ws)"

text \<open>
  \<open>Unparse_try\<close> is the \<open>try\<close> block of \<open>Unparse\<close> and \<open>Unparse\<close> adds its \<open>catch\<close>.
  The result is \<open>Inl\<close> when an error leaves the function and \<open>Inr\<close> the returned string
  otherwise.  \<open>unparseTensor\<close> is imported; it is taken to render the elements with
  \<open>Unparse\<close> and to assemble them.
\<close>

fun Unparse_try :: "ext \<Rightarrow> node \<Rightarrow> error + string"
  and Unparse :: "ext \<Rightarrow> node \<Rightarrow> error + string" where
  "Unparse_try x tree =
      (case tree of
         Undefined \<Rightarrow> Inr ''<UNDEFINED>''
       | Null \<Rightarrow> Inl TypeError
       | Number re im t \<Rightarrow> unparseNumber x tree
       | String w \<Rightarrow> unparseString x tree
       | Tensor d a t \<Rightarrow>
           bindS (sequence (map (\<lambda>row. sequence (map (Unparse x) row)) a)) (unparseTensor x d)
       | Op n t l r \<Rightarrow>
           if t \<in> set (binary_ops @ assign_ops) then
             bindS (Unparse x l) (\<lambda>a. bindS (Unparse x r) (\<lambda>b. Inr (a @ t @ b)))
           else if t = ''()'' then bindS (Unparse x r) (\<lambda>b. Inr (''('' @ b @ '')''))
           else if t = ''!'' \<or> t = ''~'' then bindS (Unparse x r) (\<lambda>b. Inr (t @ b))
           else if t = ''+_'' then bindS (Unparse x r) (\<lambda>b. Inr (''+'' @ b))
           else if t = ''-_'' then bindS (Unparse x r) (\<lambda>b. Inr (''-'' @ b))
           else if t = ''++_'' then bindS (Unparse x r) (\<lambda>b. Inr (''++'' @ b))
           else if t = ''--_'' then bindS (Unparse x r) (\<lambda>b. Inr (''--'' @ b))
           else if t = ''.'' @ sq \<or> t = sq then bindS (Unparse x l) (\<lambda>a. Inr (a @ t))
           else if t = ''_++'' then bindS (Unparse x l) (\<lambda>a. Inr (a @ ''++''))
           else if t = ''_--'' then bindS (Unparse x l) (\<lambda>a. Inr (a @ ''--''))
           else Inr ''<INVALID>''
       | NAME n i \<Rightarrow> Inr (if i = ''Inf'' \<or> i = ''inf'' then ''&infin;'' else i)
       | LIST n xs \<Rightarrow>
           bindS (sequence (map (Unparse x) xs)) (\<lambda>ws. Inr (join nl ws @ nl))
       | RANGE n start stop stride \<Rightarrow>
           if truthy start \<and> truthy stop then
             (if truthy stride then
                bindS (Unparse x start) (\<lambda>a. bindS (Unparse x stride) (\<lambda>b.
                  bindS (Unparse x stop) (\<lambda>c. Inr (a @ '':'' @ b @ '':'' @ c))))
              else bindS (Unparse x start) (\<lambda>a. bindS (Unparse x stop) (\<lambda>c.
                  Inr (a @ '':'' @ c))))
           else Inr '':''
       | Reserved n t \<Rightarrow>
           if t = ''ENDRANGE'' then Inr ''end''
           else if t = '':'' then Inr '':''
           else if t = ''<~>'' then Inr ''~''
           else Inr ''<INVALID>''
       | ARG n e as \<Rightarrow>
           bindS (Unparse x e) (\<lambda>a. bindS (sequence (map (Unparse x) as)) (\<lambda>ws.
             Inr (a @ ''('' @ join '','' ws @ '')'')))
       | RETLIST n sel \<Rightarrow> Inr ''<RETLIST>''
       | CmdWList n i ws \<Rightarrow>
           bindS (sequence (map (Unparse x) ws)) (\<lambda>vs. Inr (i @ '' '' @ join '' '' vs))
       | Foreign k \<Rightarrow> Inr ''<INVALID>'')"
| "Unparse x tree =
     (case Unparse_try x tree of Inl e \<Rightarrow> Inr ''<ERROR>'' | Inr w \<Rightarrow> Inr w)"

section \<open>unparserML\<close>

definition ml_plain_ops :: "string list" where
  "ml_plain_ops = [''+'', ''-'', ''.*'', ''./'', ''.'' @ bs, bs, ''.^'', ''.**'', ''<'', ''>'',
     ''=='', ''&'', ''|'', ''&&'', ''||'']"

text \<open>
  The templates of \<open>unparseMLFunctions\<close>, applied to the rendered first and second
  argument.  Calling a template that does not exist is a TypeError.
\<close>

definition mlTemplate :: "string \<Rightarrow> string \<Rightarrow> string \<Rightarrow> error + string" where
  "mlTemplate f a0 a1 =
     (if f = ''abs'' then Inr (''<mrow><mo>|</mo>'' @ a0 @ ''<mo>|</mo></mrow>'')
      else if f = ''conj'' then
        Inr (''<mover><mrow>'' @ a0 @ ''</mrow><mo>&OverBar;</mo></mover>'')
      else if f = ''sqrt'' then Inr (''<msqrt><mrow>'' @ a0 @ ''</mrow></msqrt>'')
      else if f = ''root'' then
        Inr (''<mroot><mrow>'' @ a0 @ ''</mrow><mrow>'' @ a1 @ ''</mrow></mroot>'')
      else if f = ''exp'' then Inr (''<msup><mi>e</mi><mrow>'' @ a0 @ ''</mrow></msup>'')
      else if f = ''logb'' then
        Inr (''<msub><mi>log</mi><mrow>'' @ a0 @ ''</mrow></msub><mrow>'' @ a1 @ ''</mrow>'')
      else if f = ''log2'' then
        Inr (''<msub><mi>log</mi><mrow>'' @ ''<mn>2</mn>'' @ ''</mrow></msub><mrow>'' @ a0
             @ ''</mrow>'')
      else if f = ''log10'' then
        Inr (''<msub><mi>log</mi><mrow>'' @ ''<mn>10</mn>'' @ ''</mrow></msub><mrow>'' @ a0
             @ ''</mrow>'')
      else if f = ''gamma'' then
        Inr (''<mi>&Gamma;</mi><mrow><mo>(</mo>'' @ a0 @ ''<mo>)</mo></mrow>'')
      else if f = ''factorial'' then
        Inr (''<mrow><mo>(</mo>'' @ a0 @ ''<mo>)</mo></mrow><mo>!</mo>'')
      else Inl TypeError)"

abbreviation mo :: "string \<Rightarrow> string" where
  "mo w \<equiv> ''<mo>'' @ w @ ''</mo>''"

abbreviation mrow2 :: "string \<Rightarrow> string \<Rightarrow> string \<Rightarrow> string" where
  "mrow2 tag a b \<equiv>
     ''<'' @ tag @ ''><mrow>'' @ a @ ''</mrow><mrow>'' @ b @ ''</mrow></'' @ tag @ ''>''"

text \<open>
  \<open>unparserML_try\<close> is the \<open>try\<close> block of \<open>unparserML\<close>; \<open>unparserML\<close> adds the
  \<open>catch\<close>, which throws the error again when the \<open>debug\<close> flag of the evaluator is set.
\<close>

fun unparserML_try :: "ext \<Rightarrow> state \<Rightarrow> bool \<Rightarrow> node \<Rightarrow> error + string"
  and unparserML :: "ext \<Rightarrow> state \<Rightarrow> bool \<Rightarrow> node \<Rightarrow> error + string" where
  "unparserML_try x st debug tree =
      (case tree of
         Undefined \<Rightarrow> Inr ''<mi>undefined</mi>''
       | Null \<Rightarrow> Inl TypeError
       | Number re im t \<Rightarrow> unparseNumberML x tree
       | String w \<Rightarrow> unparseStringML x tree
       | Tensor d a t \<Rightarrow>
           bindS (sequence (map (\<lambda>row. sequence (map (unparserML x st debug) row)) a))
             (unparseTensorML x d)
       | Op n t l r \<Rightarrow>
           if t \<in> set (ml_plain_ops @ assign_ops) then
             bindS (unparserML x st debug l) (\<lambda>a. bindS (unparserML x st debug r) (\<lambda>b.
               Inr (a @ mo t @ b)))
           else if t = ''<='' then
             bindS (unparserML x st debug l) (\<lambda>a. bindS (unparserML x st debug r) (\<lambda>b.
               Inr (a @ ''<mo>&le;</mo>'' @ b)))
           else if t = ''>='' then
             bindS (unparserML x st debug l) (\<lambda>a. bindS (unparserML x st debug r) (\<lambda>b.
               Inr (a @ ''<mo>&ge;</mo>'' @ b)))
           else if t = ''!='' \<or> t = ''~='' then
             bindS (unparserML x st debug l) (\<lambda>a. bindS (unparserML x st debug r) (\<lambda>b.
               Inr (a @ ''<mo>&ne;</mo>'' @ b)))
           else if t = ''()'' then
             bindS (unparserML x st debug r) (\<lambda>b. Inr (''<mo>(</mo>'' @ b @ ''<mo>)</mo>''))
           else if t = ''*'' then
             bindS (unparserML x st debug l) (\<lambda>a. bindS (unparserML x st debug r) (\<lambda>b.
               Inr (a @ ''<mo>&times;</mo>'' @ b)))
           else if t = ''/'' then
             bindS (unparserML x st debug l) (\<lambda>a. bindS (unparserML x st debug r) (\<lambda>b.
               Inr (mrow2 ''mfrac'' a b)))
           else if t = ''**'' \<or> t = ''^'' then
             bindS (unparserML x st debug l) (\<lambda>a. bindS (unparserML x st debug r) (\<lambda>b.
               Inr (mrow2 ''msup'' a b)))
           else if t = ''!'' \<or> t = ''~'' then
             bindS (unparserML x st debug r) (\<lambda>b. Inr (mo t @ b))
           else if t = ''+_'' then bindS (unparserML x st debug r) (\<lambda>b. Inr (mo ''+'' @ b))
           else if t = ''-_'' then bindS (unparserML x st debug r) (\<lambda>b. Inr (mo ''-'' @ b))
           else if t = ''++_'' then bindS (unparserML x st debug r) (\<lambda>b. Inr (mo ''++'' @ b))
           else if t = ''--_'' then bindS (unparserML x st debug r) (\<lambda>b. Inr (mo ''--'' @ b))
           else if t = ''_++'' then bindS (unparserML x st debug l) (\<lambda>a. Inr (a @ mo ''++''))
           else if t = ''_--'' then bindS (unparserML x st debug l) (\<lambda>a. Inr (a @ mo ''--''))
           else if t = ''.'' @ sq then
             bindS (unparserML x st debug l) (\<lambda>a. Inr (mrow2 ''msup'' a ''<mi>T</mi>''))
           else if t = sq then
             bindS (unparserML x st debug l) (\<lambda>a. Inr (mrow2 ''msup'' a ''<mi>H</mi>''))
           else Inr ''<mi>invalid</mi>''
       | NAME n i \<Rightarrow> bindS (substSymbol x i) (\<lambda>w. Inr (''<mi>'' @ w @ ''</mi>''))
       | LIST n xs \<Rightarrow>
           bindS (sequence (map (unparserML x st debug) xs)) (\<lambda>ws.
             Inr (''<mtable>'' @ concat (map (\<lambda>w. ''<mtr><mtd>'' @ w @ ''</mtd></mtr>'') ws)
                  @ ''</mtable>''))
       | RANGE n start stop stride \<Rightarrow>
           if truthy start \<and> truthy stop then
             (if truthy stride then
                bindS (unparserML x st debug start) (\<lambda>a.
                bindS (unparserML x st debug stride) (\<lambda>b.
                bindS (unparserML x st debug stop) (\<lambda>c. Inr (a @ mo '':'' @ b @ mo '':'' @ c))))
              else
                bindS (unparserML x st debug start) (\<lambda>a.
                bindS (unparserML x st debug stop) (\<lambda>c. Inr (a @ mo '':'' @ c))))
           else Inr (mo '':'')
       | Reserved n t \<Rightarrow>
           if t = ''ENDRANGE'' then Inr ''<mi>end</mi>''
           else if t = '':'' then Inr (mo '':'')
           else if t = ''<~>'' then Inr (mo ''~'')
           else Inr ''<mi>invalid</mi>''
       | ARG n e as \<Rightarrow>
           (case as of
              [] \<Rightarrow>
                bindS (unparserML x st debug e) (\<lambda>a. Inr (a @ ''<mrow><mo>(</mo><mo>)</mo></mrow>''))
            | a0 # rest \<Rightarrow>
                bindS (sequence (map (unparserML x st debug) as)) (\<lambda>ws.
                  let arglist = join (mo '','') ws in
                  if \<not> isObject e then Inl TypeError
                  else if node_type e = TStr ''NAME'' then
                    (case (case baseFunctionTable st (aliasName x (id_key e)) of
                             None \<Rightarrow> None | Some be \<Rightarrow> unparserML_of be) of
                       Some (MLExternal f) \<Rightarrow> f tree
                     | Some (MLTemplate f) \<Rightarrow>
                         bindS (unparserML x st debug a0) (\<lambda>r0.
                           if f = ''root'' \<or> f = ''logb'' then
                             bindS (case rest of
                                      [] \<Rightarrow> unparserML x st debug Undefined
                                    | a1 # others \<Rightarrow> unparserML x st debug a1)
                               (\<lambda>r1. mlTemplate f r0 r1)
                           else mlTemplate f r0 [])
                     | None \<Rightarrow>
                         bindS (substSymbol x (id_key e)) (\<lambda>w.
                           Inr (''<mi>'' @ w @ ''</mi><mrow><mo>(</mo>'' @ arglist
                                @ ''<mo>)</mo></mrow>'')))
                  else
                    bindS (unparserML x st debug e) (\<lambda>a.
                      Inr (a @ ''<mrow><mo>(</mo>'' @ arglist @ ''<mo>)</mo></mrow>''))))
       | RETLIST n sel \<Rightarrow> Inr ''<mi>RETLIST</mi>''
       | CmdWList n i ws \<Rightarrow>
           bindS (sequence (map (unparserML x st debug) ws)) (\<lambda>vs.
             Inr (''<mtext>'' @ i @ '' '' @ join '' '' vs @ ''</mtext>''))
       | Foreign k \<Rightarrow> Inr ''<mi>invalid</mi>'')"
| "unparserML x st debug tree =
     (case unparserML_try x st debug tree of
        Inl e \<Rightarrow> if debug then Inl e else Inr ''<mi>error</mi>''
      | Inr w \<Rightarrow> Inr w)"

declare Unparse_try.simps [simp del] Unparse.simps [simp del]
declare unparserML_try.simps [simp del] unparserML.simps [simp del]

section \<open>The parent and index properties\<close>

text \<open>
  The identity of an AST node.  The evaluator also writes \<open>parent\<close> on numbers, strings
  and tensors, which are never an ancestor in the walks below and whose \<open>parent\<close> is
  read nowhere in this file; those writes are not recorded.
\<close>

fun nid :: "node \<Rightarrow> nat option" where
  "nid (NAME n i) = Some n"
| "nid (ARG n e as) = Some n"
| "nid (Op n t l r) = Some n"
| "nid (LIST n xs) = Some n"
| "nid (RANGE n a b c) = Some n"
| "nid (RETLIST n sel) = Some n"
| "nid (Reserved n t) = Some n"
| "nid (CmdWList n i ws) = Some n"
| "nid _ = None"

text \<open>
  A reference to a node, as stored in the \<open>parent\<close> property of another.  The nodes
  referred to are AST nodes; a number, string or tensor is a parent only of itself (the
  right-hand side of an assignment that is a literal), a link that is not recorded.
\<close>

fun ref :: "node \<Rightarrow> link" where
  "ref (ARG n e as) = LRef n (TStr ''ARG'') (id_key e) (length as)"
| "ref t = (case nid t of Some n \<Rightarrow> LRef n (node_type t) [] 0 | None \<Rightarrow> LNull)"

definition ret :: "'a \<Rightarrow> state \<Rightarrow> 'a res" where
  "ret v st = Some (Inr v, st)"

definition throw :: "error \<Rightarrow> state \<Rightarrow> 'a res" where
  "throw e st = Some (Inl e, st)"

definition bindR :: "'a res \<Rightarrow> ('a \<Rightarrow> state \<Rightarrow> 'b res) \<Rightarrow> 'b res" where
  "bindR m f =
     (case m of
        None \<Rightarrow> None
      | Some (Inl e, st) \<Rightarrow> Some (Inl e, st)
      | Some (Inr v, st) \<Rightarrow> f v st)"

definition liftE :: "error + 'a \<Rightarrow> state \<Rightarrow> 'a res" where
  "liftE r st = (case r of Inl e \<Rightarrow> Some (Inl e, st) | Inr v \<Rightarrow> Some (Inr v, st))"

text \<open>\<open>child.parent = l\<close>, where \<open>l\<close> is a reference, \<open>null\<close> or (as \<open>None\<close>) \<open>undefined\<close>.\<close>

definition setParent :: "node \<Rightarrow> link option \<Rightarrow> state \<Rightarrow> unit res" where
  "setParent child l st =
     (if \<not> isObject child then throw TypeError st
      else case nid child of
             None \<Rightarrow> ret () st
           | Some c \<Rightarrow> ret () (st\<lparr>parents := (parents st)(c := l)\<rparr>))"

definition setIndex :: "node \<Rightarrow> nat \<Rightarrow> state \<Rightarrow> unit res" where
  "setIndex child i st =
     (if \<not> isObject child then throw TypeError st
      else case nid child of
             None \<Rightarrow> ret () st
           | Some c \<Rightarrow> ret () (st\<lparr>indexes := (indexes st)(c \<mapsto> i)\<rparr>))"

text \<open>\<open>x.parent\<close> of an AST node: \<open>None\<close> is \<open>undefined\<close>.\<close>

definition parentOf :: "state \<Rightarrow> node \<Rightarrow> link option" where
  "parentOf st t = (case nid t of None \<Rightarrow> None | Some n \<Rightarrow> parents st n)"

definition reduceIfReturnList :: "node \<Rightarrow> state \<Rightarrow> node res" where
  "reduceIfReturnList v st =
     (case v of
        RETLIST n sel \<Rightarrow>
          bindR (liftE (sel 1 0) st) (\<lambda>result st.
            bindR (setParent result (parents st n) st) (\<lambda>u. ret result))
      | _ \<Rightarrow> if isObject v then ret v st else throw TypeError st)"

section \<open>Resolution of end and of the colon\<close>

text \<open>
  The loop of case ENDRANGE: \<open>while (parent !== null && parent.type !== 'ARG')
  parent = parent.parent\<close>.  Reading \<open>type\<close> from \<open>undefined\<close> is a TypeError.  The chain
  of parents can be cyclic and the loop then never ends: the walk is a partial function,
  \<open>None\<close> where the loop does not return.
\<close>

partial_function (option) walkARG :: "state \<Rightarrow> link option \<Rightarrow> (error + link) option" where
  "walkARG st l =
     (case l of
        None \<Rightarrow> Some (Inl TypeError)
      | Some LNull \<Rightarrow> Some (Inr LNull)
      | Some (LRef p ty key na) \<Rightarrow>
          if ty = TStr ''ARG'' then Some (Inr (LRef p ty key na))
          else walkARG st (parents st p))"

text \<open>
  The test both cases share: \<open>key in this.nameTable && this.nameTable[key].args.length === 0
  && this.isTensor(this.nameTable[key].expr)\<close>, with the tensor when it holds.
\<close>

definition boundTensor :: "state \<Rightarrow> string \<Rightarrow> error + node option" where
  "boundTensor st key =
     (let f = tableGet (nameTable st) key in
      if tableIn f then
        (case foundArgs f of
           Inl e \<Rightarrow> Inl e
         | Inr as \<Rightarrow>
             if length as = 0 then
               (case foundExpr f of
                  Inl e \<Rightarrow> Inl e
                | Inr t \<Rightarrow> Inr (if isTensor t then Some t else None))
             else Inr None)
      else Inr None)"

text \<open>\<open>tree.parent.index\<close>, given that \<open>tree.parent\<close> is an object.\<close>

definition parentIndex :: "state \<Rightarrow> node \<Rightarrow> nat option" where
  "parentIndex st tree =
     (case parentOf st tree of Some (LRef p ty key na) \<Rightarrow> indexes st p | _ \<Rightarrow> None)"

definition eval_ENDRANGE :: "ext \<Rightarrow> state \<Rightarrow> node \<Rightarrow> node res" where
  "eval_ENDRANGE x st tree =
     (case walkARG st (parentOf st tree) of
        None \<Rightarrow> None
      | Some (Inl e) \<Rightarrow> throw e st
      | Some (Inr LNull) \<Rightarrow> throw (SyntaxError IndeterminateEnd) st
      | Some (Inr (LRef p ty key na)) \<Rightarrow>
          (case boundTensor st key of
             Inl e \<Rightarrow> throw e st
           | Inr None \<Rightarrow> throw (SyntaxError IndeterminateEnd) st
           | Inr (Some t) \<Rightarrow>
               if na = 1 then bindR (liftE (linearLength x t) st) (\<lambda>v. ret (newNumber x v))
               else bindR (liftE (getDimension x t (parentIndex st tree)) st)
                      (\<lambda>v. ret (newNumber x v))))"

definition eval_colon :: "ext \<Rightarrow> state \<Rightarrow> node \<Rightarrow> node res" where
  "eval_colon x st tree =
     (case parentOf st tree of
        None \<Rightarrow> throw TypeError st
      | Some LNull \<Rightarrow> throw TypeError st
      | Some (LRef p ty key na) \<Rightarrow>
          (case (if ty = TStr ''ARG'' then boundTensor st key else Inr None) of
             Inl e \<Rightarrow> throw e st
           | Inr None \<Rightarrow> throw (SyntaxError IndeterminateColon) st
           | Inr (Some t) \<Rightarrow>
               if na = 1 then
                 bindR (liftE (linearLength x t) st) (\<lambda>v.
                   liftE (expandRange x (cd_one x) (newNumber x v) Undefined))
               else
                 bindR (liftE (getDimension x t (parentIndex st tree)) st) (\<lambda>v.
                   liftE (expandRange x (cd_one x) (newNumber x v) Undefined))))"

section \<open>The cases of the evaluator\<close>

text \<open>
  Each case of the \<open>switch\<close> of \<open>Evaluator\<close> is a definition that takes the recursive
  evaluator \<open>ev\<close> as a parameter; the function \<open>Evaluator\<close> below ties the knot.
\<close>

text \<open>\<open>frame[i]\<close> of a frame of \<open>localTable\<close>, which is a plain object as well.\<close>

definition frameGet :: "(string \<rightharpoonup> node) \<Rightarrow> string \<Rightarrow> node" where
  "frameGet frame i =
     (case frame i of
        Some v \<Rightarrow> v
      | None \<Rightarrow> if i \<in> set protoKeys then Foreign i else Undefined)"

text \<open>
  \<open>local && this.localTable[fname] && this.localTable[fname][id]\<close>, \<open>None\<close> when the
  conjunction is falsy.  When \<open>fname\<close> is no own key of \<open>localTable\<close> but a key of
  \<open>protoKeys\<close>, \<open>this.localTable[fname]\<close> is a member of \<open>Object.prototype\<close>; the members
  of \<open>Object.prototype\<close> are found in it again (its own \<open>__proto__\<close> is \<open>null\<close>).  The
  properties that the functions of the runtime have besides (\<open>name\<close>, \<open>length\<close>, \<open>call\<close>
  and the like) are not part of the model.
\<close>

definition localLookup :: "state \<Rightarrow> bool \<Rightarrow> string \<Rightarrow> string \<Rightarrow> node option" where
  "localLookup st local fname i =
     (if local then
        (case localTable st fname of
           None \<Rightarrow>
             if fname \<in> set protoKeys \<and> i \<in> set protoKeys
                \<and> \<not> (fname = ''__proto__'' \<and> i = ''__proto__'')
             then Some (Foreign i) else None
         | Some (fid, frame) \<Rightarrow>
             (let v = frameGet frame i in if truthy v then Some v else None))
      else None)"

definition alloc :: "state \<Rightarrow> nat \<times> state" where
  "alloc st = (fresh st, st\<lparr>fresh := Suc (fresh st)\<rparr>)"

text \<open>\<open>this.reduceIfReturnList(this.Evaluator(t, local, fname))\<close>\<close>

definition evalReduce :: "evaluator \<Rightarrow> node \<Rightarrow> bool \<Rightarrow> string \<Rightarrow> state \<Rightarrow> node res" where
  "evalReduce ev t local fname st = bindR (ev st t local fname) reduceIfReturnList"

text \<open>
  \<open>args.map((arg, i) => { arg.parent = tree; arg.index = i; return reduce(Evaluator(arg)) })\<close>
\<close>

fun mapArgs :: "evaluator \<Rightarrow> link \<Rightarrow> bool \<Rightarrow> string \<Rightarrow> nat \<Rightarrow> node list \<Rightarrow> state
                 \<Rightarrow> node list res" where
  "mapArgs ev p local fname i [] st = ret [] st"
| "mapArgs ev p local fname i (a # as) st =
     bindR (setParent a (Some p) st) (\<lambda>u st.
     bindR (setIndex a i st) (\<lambda>u st.
     bindR (evalReduce ev a local fname st) (\<lambda>r st.
     bindR (mapArgs ev p local fname (Suc i) as st) (\<lambda>rs. ret (r # rs)))))"

text \<open>The same with the selective evaluation flags \<open>ev[i]\<close> of a built-in.\<close>

fun mapArgsSel :: "evaluator \<Rightarrow> link \<Rightarrow> bool \<Rightarrow> string \<Rightarrow> bool list \<Rightarrow> nat \<Rightarrow> node list
                    \<Rightarrow> state \<Rightarrow> node list res" where
  "mapArgsSel ev p local fname flags i [] st = ret [] st"
| "mapArgsSel ev p local fname flags i (a # as) st =
     bindR (setParent a (Some p) st) (\<lambda>u st.
     bindR (setIndex a i st) (\<lambda>u st.
     bindR (if i < length flags \<and> flags ! i then evalReduce ev a local fname st else ret a st)
       (\<lambda>r st.
     bindR (mapArgsSel ev p local fname flags (Suc i) as st) (\<lambda>rs. ret (r # rs)))))"

text \<open>\<open>args.map((arg) => this.linearize(reduce(this.Evaluator(arg))))\<close>\<close>

fun mapLinearize :: "evaluator \<Rightarrow> ext \<Rightarrow> node list \<Rightarrow> state \<Rightarrow> node list res" where
  "mapLinearize ev x [] st = ret [] st"
| "mapLinearize ev x (a # as) st =
     bindR (evalReduce ev a False [] st) (\<lambda>r st.
     bindR (liftE (linearize x r) st) (\<lambda>l st.
     bindR (mapLinearize ev x as st) (\<lambda>ls. ret (l # ls))))"

definition eval_NAME :: "evaluator \<Rightarrow> state \<Rightarrow> node \<Rightarrow> bool \<Rightarrow> string \<Rightarrow> node res" where
  "eval_NAME ev st tree local fname =
     (case localLookup st local fname (id_key tree) of
        Some v \<Rightarrow> bindR (setParent v (Some (ref tree)) st) (\<lambda>u. ret v)
      | None \<Rightarrow>
          (let f = tableGet (nameTable st) (id_key tree) in
           if tableIn f then
             bindR (liftE (foundArgs f) st) (\<lambda>fargs st.
               if length fargs = 0 then
                 bindR (liftE (foundExpr f) st) (\<lambda>ex st.
                 bindR (setParent ex (Some (ref tree)) st) (\<lambda>u.
                   evalReduce ev ex False []))
               else throw (EvalError (WithoutArguments (id_key tree))) st)
           else throw (EvalError (UndefinedName (id_key tree))) st))"

text \<open>
  The loop of case LIST.  A NAME that is unbound but registered as a command becomes a
  CmdWList node; the model evaluates the converted node, it cannot overwrite the node
  inside the caller's tree.  \<open>typeof result.list[i].type === 'number'\<close> holds of a
  ComplexDecimal and of a MultiArray.
\<close>

definition toCmdWList :: "state \<Rightarrow> bool \<Rightarrow> string \<Rightarrow> node \<Rightarrow> node" where
  "toCmdWList st local fname a =
     (case a of
        NAME n i \<Rightarrow>
          if localLookup st local fname i = None \<and> \<not> tableIn (tableGet (nameTable st) i)
             \<and> i \<in> set (commandsTable st)
          then CmdWList n i [] else a
      | _ \<Rightarrow> a)"

definition setAns :: "node \<Rightarrow> state \<Rightarrow> state" where
  "setAns r st =
     (case node_type r of
        TNum c \<Rightarrow> st\<lparr>nameTable := (nameTable st)(''ans'' \<mapsto> \<lparr>args = [], expr = r\<rparr>)\<rparr>
      | _ \<Rightarrow> st)"

fun listLoop :: "evaluator \<Rightarrow> link \<Rightarrow> bool \<Rightarrow> string \<Rightarrow> nat \<Rightarrow> node list \<Rightarrow> state
                  \<Rightarrow> node list res" where
  "listLoop ev p local fname i [] st = ret [] st"
| "listLoop ev p local fname i (a # as) st =
     (let a' = toCmdWList st local fname a in
      bindR (setParent a' (Some p) st) (\<lambda>u st.
      bindR (setIndex a' i st) (\<lambda>u st.
      bindR (evalReduce ev a' local fname st) (\<lambda>r st.
      bindR (listLoop ev p local fname (Suc i) as (setAns r st)) (\<lambda>rs. ret (r # rs))))))"

definition eval_LIST :: "evaluator \<Rightarrow> state \<Rightarrow> node \<Rightarrow> bool \<Rightarrow> string \<Rightarrow> node res" where
  "eval_LIST ev st tree local fname =
     (case tree of
        LIST m xs \<Rightarrow>
          (let (r, st1) = alloc st;
               st2 = st1\<lparr>parents := (parents st1)
                        (r \<mapsto> (if parents st m = Some LNull then LNull else ref tree))\<rparr>
           in bindR (listLoop ev (LRef r (TStr ''LIST'') [] 0) local fname 0 xs st2)
                (\<lambda>rs. ret (LIST r rs)))
      | _ \<Rightarrow> throw TypeError st)"

definition eval_RANGE :: "evaluator \<Rightarrow> ext \<Rightarrow> state \<Rightarrow> node \<Rightarrow> bool \<Rightarrow> string \<Rightarrow> node res" where
  "eval_RANGE ev x st tree local fname =
     (case tree of
        RANGE m start stop stride \<Rightarrow>
          bindR (setParent start (Some (ref tree)) st) (\<lambda>u st.
          bindR (setParent stop (Some (ref tree)) st) (\<lambda>u st.
          bindR (if truthy stride then setParent stride (Some (ref tree)) st else ret () st)
            (\<lambda>u st.
          bindR (evalReduce ev start local fname st) (\<lambda>a st.
          bindR (evalReduce ev stop local fname st) (\<lambda>b st.
          bindR (if truthy stride then evalReduce ev stride local fname st else ret Null st)
            (\<lambda>c. liftE (expandRange x a b c)))))))
      | _ \<Rightarrow> throw TypeError st)"

definition eval_CmdWList :: "ext \<Rightarrow> state \<Rightarrow> node \<Rightarrow> node res" where
  "eval_CmdWList x st tree =
     (case tree of
        CmdWList m i ws \<Rightarrow>
          if i \<notin> set (commandWordListTable st) then throw TypeError st
          else (case cmdWordFunc x i ws of
                  Some e \<Rightarrow> throw e st
                | None \<Rightarrow> ret tree (st\<lparr>exitStatus := - 2\<rparr>))
      | _ \<Rightarrow> throw TypeError st)"

text \<open>
  Indexing of the tensor \<open>temp\<close>, named \<open>name\<close> in error messages, by the subscripts of
  the ARG node \<open>tree\<close>.  With one subscript the \<open>parent\<close> and \<open>index\<close> of the subscript
  are not written.
\<close>

definition indexInto :: "evaluator \<Rightarrow> ext \<Rightarrow> node \<Rightarrow> node \<Rightarrow> string \<Rightarrow> node list \<Rightarrow> bool
    \<Rightarrow> string \<Rightarrow> state \<Rightarrow> node res" where
  "indexInto ev x tree temp name as local fname st =
     bindR
       (if length as = 1 then
          bindR (evalReduce ev (hd as) local fname st) (\<lambda>arg0.
            if isTensor arg0 \<and> node_type arg0 = TNum (logicalClass x)
            then liftE (getItemsLogical x temp name arg0)
            else liftE (getItems x temp name [arg0]))
        else
          bindR (mapArgs ev (ref tree) local fname 0 as st) (\<lambda>idx.
            liftE (getItems x temp name idx)))
       (\<lambda>result st. bindR (setParent result (Some (ref tree)) st) (\<lambda>u. ret result))"

text \<open>
  The local frame of a call is an object of its own: \<open>localTable\<close> maps the function name
  to the identity of the frame and its bindings.  In
  \<open>this.localTable[f][key] = reduce(Evaluator(arg, true, fname))\<close> the frame is read
  before the argument is evaluated and written after; when the evaluation of the argument
  has replaced or deleted the entry of \<open>f\<close>, the write goes to a frame that is no longer
  in the table.
\<close>

definition putLocal :: "string \<Rightarrow> nat \<Rightarrow> string \<Rightarrow> node \<Rightarrow> state \<Rightarrow> state" where
  "putLocal f fid key v st =
     (case localTable st f of
        Some (fid', frame) \<Rightarrow>
          if fid' = fid then st\<lparr>localTable := (localTable st)(f \<mapsto> (fid, frame(key \<mapsto> v)))\<rparr>
          else st
      | None \<Rightarrow> st)"

fun bindFormals :: "evaluator \<Rightarrow> string \<Rightarrow> link \<Rightarrow> string \<Rightarrow> nat \<Rightarrow> node list \<Rightarrow> state
                     \<Rightarrow> unit res" where
  "bindFormals ev f p fname i [] st = ret () st"
| "bindFormals ev f p fname i (a # as) st =
     bindR (setParent a (Some p) st) (\<lambda>u st.
     bindR (setIndex a i st) (\<lambda>u st.
       let base = localTable st f in
       case foundArgs (tableGet (nameTable st) f) of
         Inl e \<Rightarrow> throw e st
       | Inr fargs \<Rightarrow>
           if i < length fargs \<and> isObject (fargs ! i) then
             bindR (evalReduce ev a True fname st) (\<lambda>v st.
               case base of
                 None \<Rightarrow>
                   if f \<in> set protoKeys then bindFormals ev f p fname (Suc i) as st
                   else throw TypeError st
               | Some (fid, frame) \<Rightarrow>
                   bindFormals ev f p fname (Suc i) as
                     (putLocal f fid (id_key (fargs ! i)) v st))
           else throw TypeError st))"

definition callFunction :: "evaluator \<Rightarrow> state \<Rightarrow> node \<Rightarrow> string \<Rightarrow> node list \<Rightarrow> string
                             \<Rightarrow> node res" where
  "callFunction ev st tree f as fname =
     (case foundArgs (tableGet (nameTable st) f) of
        Inl e \<Rightarrow> throw e st
      | Inr fargs \<Rightarrow>
          if length fargs \<noteq> length as then throw (EvalError (InvalidArity f)) st
          else
            (let (fid, st1) = alloc st;
                 st2 = st1\<lparr>localTable := (localTable st1)(f \<mapsto> (fid, Map.empty))\<rparr>
             in bindR (bindFormals ev f (ref tree) fname 0 as st2) (\<lambda>u st.
                  case foundExpr (tableGet (nameTable st) f) of
                    Inl e \<Rightarrow> throw e st
                  | Inr body \<Rightarrow>
                      bindR (evalReduce ev body True f st) (\<lambda>temp st.
                        ret temp (st\<lparr>localTable := (localTable st)(f := None)\<rparr>)))))"

definition eval_ARG :: "evaluator \<Rightarrow> ext \<Rightarrow> state \<Rightarrow> node \<Rightarrow> bool \<Rightarrow> string \<Rightarrow> node res" where
  "eval_ARG ev x st tree local fname =
     (case tree of
        ARG m e as \<Rightarrow>
          if isUndefined e then throw (EvalError (UndefinedName ''undefined'')) st
          else
            bindR (setParent e (Some (ref tree)) st) (\<lambda>u st.
              if node_type e = TStr ''NAME'' then
                (let i = id_key e; alias = aliasName x i in
                 case baseFunctionTable st alias of
                   Some be \<Rightarrow>
                     (case mapper be of
                        Some mp \<Rightarrow>
                          bindR (mapArgs ev (ref tree) local fname 0 as st) (\<lambda>argumentsList st.
                            if mp \<and> length argumentsList \<noteq> 1
                            then throw (EvalError (InvalidCall alias)) st
                            else if length argumentsList = 1 \<and> isTensor (hd argumentsList) \<and> mp
                            then liftE (mapTensor x alias (hd argumentsList)) st
                            else liftE (callFunc x alias argumentsList) st)
                      | None \<Rightarrow>
                          bindR (mapArgsSel ev (ref tree) local fname (ev_flags be) 0 as st)
                            (\<lambda>argumentsList. liftE (callFunc x alias argumentsList)))
                 | None \<Rightarrow>
                     if alias \<in> set protoKeys then
                       (case as of
                          [] \<Rightarrow> throw TypeError st
                        | a # rest \<Rightarrow>
                            bindR (setParent a (Some (ref tree)) st) (\<lambda>u st.
                            bindR (setIndex a 0 st) (\<lambda>u. throw TypeError)))
                     else
                     (case localLookup st local fname i of
                        Some v \<Rightarrow> ret v st
                      | None \<Rightarrow>
                          (let f = tableGet (nameTable st) i in
                           if tableIn f then
                             (case foundArgs f of
                                Inl err \<Rightarrow> throw err st
                              | Inr fargs \<Rightarrow>
                                  if length fargs = 0 then
                                    bindR (liftE (foundExpr f) st) (\<lambda>ex st.
                                    bindR (setParent ex (Some (ref tree)) st) (\<lambda>u st.
                                    bindR (evalReduce ev ex False [] st) (\<lambda>temp st.
                                      if length as = 0 then ret temp st
                                      else if isTensor temp
                                      then indexInto ev x tree temp i as local fname st
                                      else throw (EvalError InvalidIndexing) st)))
                                  else callFunction ev st tree i as fname)
                           else throw (EvalError (UndefinedName i)) st)))
              else
                indexInto ev x tree e (case Unparse x e of Inr w \<Rightarrow> w | Inl err \<Rightarrow> [])
                  as local fname st)
      | _ \<Rightarrow> throw TypeError st)"

section \<open>Assignment\<close>

definition nodeOp :: "nat \<Rightarrow> string \<Rightarrow> node \<Rightarrow> node \<Rightarrow> node" where
  "nodeOp k op data1 data2 =
     (if op \<in> set (binary_ops @ assign_ops) then Op k op data1 data2
      else if op \<in> set [''()'', ''!'', ''~'', ''+_'', ''-_'', ''++_'', ''--_'']
      then Op k op Undefined data1
      else if op \<in> set [''.'' @ sq, sq, ''_++'', ''_--''] then Op k op data1 Undefined
      else Reserved k ''INVALID'')"

text \<open>
  The selector that wraps a right-hand side which is not a return list: element 0 is the
  right-hand side node itself, not its value.
\<close>

definition wrapSel :: "node \<Rightarrow> nat \<Rightarrow> nat \<Rightarrow> error + node" where
  "wrapSel rhs len index =
     (if index = 0 then Inr rhs else Inl (EvalError (ElementUndefined (index + 1))))"

text \<open>\<open>this.toTensor(reduce(this.Evaluator(right.selector(assignment.length, n))))\<close>\<close>

definition selValue :: "evaluator \<Rightarrow> ext \<Rightarrow> (nat \<Rightarrow> nat \<Rightarrow> error + node) \<Rightarrow> nat \<Rightarrow> nat \<Rightarrow> state
                         \<Rightarrow> node res" where
  "selValue ev x sel len n st =
     bindR (liftE (sel len n) st) (\<lambda>r st.
     bindR (evalReduce ev r False [] st) (\<lambda>v. liftE (toTensor x v)))"

text \<open>The value written by a computed indexed assignment, \<open>current OP right\<close>.\<close>

definition compoundValue :: "evaluator \<Rightarrow> ext \<Rightarrow> string \<Rightarrow> node \<Rightarrow> (nat \<Rightarrow> nat \<Rightarrow> error + node)
    \<Rightarrow> nat \<Rightarrow> nat \<Rightarrow> string \<Rightarrow> state \<Rightarrow> node res" where
  "compoundValue ev x op current sel len n fname st =
     bindR (selValue ev x sel len n st) (\<lambda>rv st.
       let (k, st1) = alloc st in
       bindR (evalReduce ev (nodeOp k op current rv) False fname st1) (\<lambda>v. liftE (toTensor x v)))"

definition entryExpr :: "string \<Rightarrow> state \<Rightarrow> node res" where
  "entryExpr i st = liftE (foundExpr (tableGet (nameTable st) i)) st"

definition storeTable :: "error + (string \<rightharpoonup> entry) \<Rightarrow> state \<Rightarrow> unit res" where
  "storeTable r st =
     (case r of Inl e \<Rightarrow> throw e st | Inr nt \<Rightarrow> ret () (st\<lparr>nameTable := nt\<rparr>))"

text \<open>
  \<open>this.nodeList(resultList, this.nodeOp('=', this.nodeName(id), this.nameTable[id].expr))\<close>:
  the element pushed after an indexed assignment.
\<close>

definition pushIndexed :: "string \<Rightarrow> link \<Rightarrow> state \<Rightarrow> node list res" where
  "pushIndexed i rl st =
     bindR (entryExpr i st) (\<lambda>v st.
       let (k1, st1) = alloc st; (k2, st2) = alloc st1; item = nodeOp k2 ''='' (NAME k1 i) v in
       bindR (setParent item (Some rl) st2) (\<lambda>u. ret [item]))"

text \<open>
  The test for a function definition: every argument is a NAME for which
  \<open>typeof this.nameTable[args[i].id] === 'undefined'\<close>.
\<close>

fun isFunctionDef :: "state \<Rightarrow> node list \<Rightarrow> error + bool" where
  "isFunctionDef st [] = Inr True"
| "isFunctionDef st (a # as) =
     (if \<not> isObject a then Inl TypeError
      else if node_type a = TStr ''NAME'' \<and> \<not> tableDefined (tableGet (nameTable st) (id_key a))
      then isFunctionDef st as
      else Inr False)"

text \<open>A target that is a plain name (lines 1003-1018).\<close>

definition nameDefinition :: "evaluator \<Rightarrow> node \<Rightarrow> string \<Rightarrow> (nat \<Rightarrow> nat \<Rightarrow> error + node) \<Rightarrow> nat
    \<Rightarrow> link \<Rightarrow> nat \<Rightarrow> node \<Rightarrow> string \<Rightarrow> state \<Rightarrow> node list res" where
  "nameDefinition ev rhs op sel len rl n left i st =
     bindR (liftE (sel len n) st) (\<lambda>rightN st.
     bindR (setParent rightN (Some (ref rhs)) st) (\<lambda>u st.
       let (e, st1) = (if length op \<noteq> 0
                       then (let (k, s) = alloc st in (nodeOp k op left rightN, s))
                       else (rightN, st))
       in case evalReduce ev e False [] st1 of
            None \<Rightarrow> None
          | Some (Inl err, st2) \<Rightarrow>
              Some (Inl err, st2\<lparr>nameTable := (nameTable st2)(i \<mapsto> \<lparr>args = [], expr = e\<rparr>)\<rparr>)
          | Some (Inr v, st2) \<Rightarrow>
              (let st3 = st2\<lparr>nameTable := (nameTable st2)(i \<mapsto> \<lparr>args = [], expr = v\<rparr>)\<rparr>;
                   (k, st4) = alloc st3;
                   item = nodeOp k ''='' left v
               in bindR (setParent item (Some rl) st4) (\<lambda>u. ret [item]))))"

text \<open>An indexed target without operator that is not a function definition (1114-1144).\<close>

definition indexedAssign :: "evaluator \<Rightarrow> ext \<Rightarrow> (nat \<Rightarrow> nat \<Rightarrow> error + node) \<Rightarrow> nat \<Rightarrow> link \<Rightarrow> bool
    \<Rightarrow> string \<Rightarrow> nat \<Rightarrow> string \<Rightarrow> node list \<Rightarrow> state \<Rightarrow> node list res" where
  "indexedAssign ev x sel len rl local fname n i as st =
     bindR
       (if length as = 1 then
          bindR (evalReduce ev (hd as) local fname st) (\<lambda>arg0 st.
          bindR (liftE (linearize x arg0) st) (\<lambda>lin st.
          bindR (selValue ev x sel len n st) (\<lambda>v st.
            if isTensor arg0 \<and> node_type arg0 = TNum (logicalClass x)
            then storeTable (setItemsLogical x (nameTable st) i lin v) st
            else storeTable (setItems x (nameTable st) i [lin] v) st)))
        else
          bindR (mapLinearize ev x as st) (\<lambda>lins st.
          bindR (selValue ev x sel len n st) (\<lambda>v st.
            storeTable (setItems x (nameTable st) i lins v) st)))
       (\<lambda>u. pushIndexed i rl)"

text \<open>An indexed target with operator (1021-1096).\<close>

definition compoundAssign :: "evaluator \<Rightarrow> ext \<Rightarrow> string \<Rightarrow> (nat \<Rightarrow> nat \<Rightarrow> error + node) \<Rightarrow> nat
    \<Rightarrow> link \<Rightarrow> bool \<Rightarrow> string \<Rightarrow> nat \<Rightarrow> string \<Rightarrow> node list \<Rightarrow> state \<Rightarrow> node list res" where
  "compoundAssign ev x op sel len rl local fname n i as st =
     (if \<not> tableDefined (tableGet (nameTable st) i)
      then throw (EvalError (MustBeDefinedFirst i)) st
      else
        case foundArgs (tableGet (nameTable st) i) of
          Inl err \<Rightarrow> throw err st
        | Inr fargs \<Rightarrow>
          if length fargs \<noteq> 0 then throw (EvalError (CannotBeFunction i)) st
          else
            bindR
              (if length as = 1 then
                 bindR (evalReduce ev (hd as) local fname st) (\<lambda>arg0 st.
                 bindR (liftE (linearize x arg0) st) (\<lambda>lin st.
                 bindR (entryExpr i st) (\<lambda>cur st.
                   if isTensor arg0 \<and> node_type arg0 = TNum (logicalClass x) then
                     bindR (liftE (getItemsLogical x cur i arg0) st) (\<lambda>items st.
                     bindR (compoundValue ev x op items sel len n fname st) (\<lambda>v st.
                       storeTable (setItemsLogical x (nameTable st) i lin v) st))
                   else
                     bindR (liftE (getItems x cur i [arg0]) st) (\<lambda>items st.
                     bindR (compoundValue ev x op items sel len n fname st) (\<lambda>v st.
                       storeTable (setItems x (nameTable st) i [lin] v) st)))))
               else
                 bindR (mapLinearize ev x as st) (\<lambda>lins st.
                 bindR (entryExpr i st) (\<lambda>cur st.
                 bindR (liftE (getItems x cur i as) st) (\<lambda>items st.
                 bindR (compoundValue ev x op items sel len n fname st) (\<lambda>v st.
                   storeTable (setItems x (nameTable st) i lins v) st)))))
              (\<lambda>u. pushIndexed i rl))"

text \<open>
  One target of the loop over \<open>assignment\<close>.  The result is what the iteration pushes on
  \<open>resultList\<close>.  A target whose \<open>left\<close> is \<open>null\<close> (the tilde) is skipped.  In the loop
  \<open>right\<close> is always a return list, so the re-evaluation guarded by
  \<open>right.type !== 'RETLIST'\<close> never runs.
\<close>

definition assignTarget :: "evaluator \<Rightarrow> ext \<Rightarrow> node \<Rightarrow> string \<Rightarrow> (nat \<Rightarrow> nat \<Rightarrow> error + node)
    \<Rightarrow> nat \<Rightarrow> link \<Rightarrow> bool \<Rightarrow> string \<Rightarrow> nat \<Rightarrow> target \<Rightarrow> state \<Rightarrow> node list res" where
  "assignTarget ev x tree op sel len rl local fname n tg st =
     (case tg of (left, i, as) \<Rightarrow>
        if \<not> truthy left then ret [] st
        else if length as = 0 then
          nameDefinition ev (case tree of Op k t l r \<Rightarrow> r | _ \<Rightarrow> Undefined) op sel len rl n left i st
        else if length op \<noteq> 0 then compoundAssign ev x op sel len rl local fname n i as st
        else
          bindR (liftE (isFunctionDef st as) st) (\<lambda>isFunction st.
            if isFunction then
              bindR (liftE (sel len n) st) (\<lambda>body st.
              bindR (setParent tree (Some rl)
                       (st\<lparr>nameTable := (nameTable st)(i \<mapsto> \<lparr>args = as, expr = body\<rparr>)\<rparr>))
                (\<lambda>u. ret [tree]))
            else indexedAssign ev x sel len rl local fname n i as st))"

fun assignLoop :: "evaluator \<Rightarrow> ext \<Rightarrow> node \<Rightarrow> string \<Rightarrow> (nat \<Rightarrow> nat \<Rightarrow> error + node)
    \<Rightarrow> nat \<Rightarrow> link \<Rightarrow> bool \<Rightarrow> string \<Rightarrow> nat \<Rightarrow> target list \<Rightarrow> state \<Rightarrow> node list res" where
  "assignLoop ev x tree op sel len rl local fname n [] st = ret [] st"
| "assignLoop ev x tree op sel len rl local fname n (tg # tgs) st =
     bindR (assignTarget ev x tree op sel len rl local fname n tg st) (\<lambda>items st.
     bindR (assignLoop ev x tree op sel len rl local fname (Suc n) tgs st) (\<lambda>rest.
       ret (items @ rest)))"

text \<open>
  What the assignment returns (lines 1150-1162).  \<open>tree.parent.parent\<close> is read from the
  store as the loop left it.
\<close>

definition assignResult :: "node \<Rightarrow> nat \<Rightarrow> node list \<Rightarrow> state \<Rightarrow> node res" where
  "assignResult tree rid items st =
     (case parentOf st tree of
        None \<Rightarrow> throw TypeError st
      | Some LNull \<Rightarrow> throw TypeError st
      | Some (LRef p ty key na) \<Rightarrow>
          if parents st p = Some LNull then
            (if length items = 1 then ret (hd items) st else ret (LIST rid items) st)
          else
            (case items of
               [] \<Rightarrow> throw TypeError st
             | it # rest \<Rightarrow>
                 (case it of Op k t l r \<Rightarrow> ret r st | _ \<Rightarrow> ret Undefined st)))"

definition eval_assign :: "evaluator \<Rightarrow> ext \<Rightarrow> state \<Rightarrow> node \<Rightarrow> bool \<Rightarrow> string \<Rightarrow> node res" where
  "eval_assign ev x st tree local fname =
     (case tree of
        Op k t l r \<Rightarrow>
          bindR (setParent l (Some (ref tree)) st) (\<lambda>u st.
          bindR (setParent r (Some (ref tree)) st) (\<lambda>u st.
          bindR (liftE (validateAssignment st l True) st) (\<lambda>assignment st.
            let op = butlast t in
            if length assignment > 1 \<and> length op > 0
            then throw (EvalError ComputedMultiple) st
            else
              (case ev st r False fname of
                 None \<Rightarrow> None
               | Some (res, st1) \<Rightarrow>
                   (let right = (case res of Inl err \<Rightarrow> r | Inr v \<Rightarrow> v) in
                    if \<not> isObject right then throw TypeError st1
                    else
                      (let sel = (case right of RETLIST q s \<Rightarrow> s | _ \<Rightarrow> wrapSel r);
                           (rid, st2) = alloc st1
                       in bindR (assignLoop ev x tree op sel (length assignment)
                                   (LRef rid (TStr ''LIST'') [] 0) local fname 0 assignment st2)
                            (assignResult tree rid)))))))
      | _ \<Rightarrow> throw TypeError st)"

section \<open>The evaluator\<close>

text \<open>
  \<open>Evaluator(tree, local, fname)\<close>.  The recursion of the source need not end (a name
  bound to an expression that mentions the name); the runtime then throws a RangeError
  when its call stack is exhausted, an error like any other, which the \<open>catch\<close> clauses of
  the source catch.  The first argument is the number of nested calls of \<open>Evaluator\<close> the
  stack still has room for.
\<close>

primrec Evaluator :: "nat \<Rightarrow> ext \<Rightarrow> state \<Rightarrow> node \<Rightarrow> bool \<Rightarrow> string \<Rightarrow> node res" where
  "Evaluator 0 x st tree local fname = throw RangeError st"
| "Evaluator (Suc n) x st tree local fname =
     (if isNumber tree \<or> isString tree then ret tree st
      else if isTensor tree then evaluateTensor x (Evaluator n x) st tree local fname
      else case tree of
        Undefined \<Rightarrow> throw TypeError st
      | Null \<Rightarrow> throw TypeError st
      | Op k t l r \<Rightarrow>
          if t \<in> set binary_ops then
            bindR (setParent l (Some (ref tree)) st) (\<lambda>u st.
            bindR (setParent r (Some (ref tree)) st) (\<lambda>u st.
            bindR (evalReduce (Evaluator n x) l local fname st) (\<lambda>a st.
            bindR (evalReduce (Evaluator n x) r local fname st) (\<lambda>b. liftE (binOp x t a b)))))
          else if t = ''()'' then
            bindR (setParent r (Some (ref tree)) st) (\<lambda>u.
              evalReduce (Evaluator n x) r local fname)
          else if t = ''+_'' \<or> t = ''-_'' then
            bindR (setParent r (Some (ref tree)) st) (\<lambda>u st.
            bindR (evalReduce (Evaluator n x) r local fname st) (\<lambda>a. liftE (unOp x t a)))
          else if t = ''++_'' \<or> t = ''--_'' then
            bindR (setParent r (Some (ref tree)) st) (\<lambda>u st.
              Some (incDecOp x True (if t = ''++_'' then ''plus'' else ''minus'') st r))
          else if t = ''.'' @ sq \<or> t = sq then
            bindR (setParent l (Some (ref tree)) st) (\<lambda>u st.
            bindR (evalReduce (Evaluator n x) l local fname st) (\<lambda>a. liftE (unOp x t a)))
          else if t = ''_++'' \<or> t = ''_--'' then
            bindR (setParent l (Some (ref tree)) st) (\<lambda>u st.
              Some (incDecOp x False (if t = ''_++'' then ''plus'' else ''minus'') st l))
          else if t \<in> set assign_ops then eval_assign (Evaluator n x) x st tree local fname
          else throw (EvalError UndefinedType) st
      | NAME m i \<Rightarrow> eval_NAME (Evaluator n x) st tree local fname
      | LIST m xs \<Rightarrow> eval_LIST (Evaluator n x) st tree local fname
      | RANGE m a b c \<Rightarrow> eval_RANGE (Evaluator n x) x st tree local fname
      | Reserved m t \<Rightarrow>
          if t = ''ENDRANGE'' then eval_ENDRANGE x st tree
          else if t = '':'' then eval_colon x st tree
          else throw (EvalError UndefinedType) st
      | ARG m e as \<Rightarrow> eval_ARG (Evaluator n x) x st tree local fname
      | CmdWList m i ws \<Rightarrow> eval_CmdWList x st tree
      | RETLIST m sel \<Rightarrow> throw (EvalError UndefinedType) st
      | Foreign k \<Rightarrow> throw (EvalError UndefinedType) st)"

text \<open>\<open>Evaluate(tree)\<close>: the root has \<open>parent = null\<close>; an error sets the exit status.\<close>

definition Evaluate :: "nat \<Rightarrow> ext \<Rightarrow> state \<Rightarrow> node \<Rightarrow> node res" where
  "Evaluate n x st tree =
     (case setParent tree (Some LNull) (st\<lparr>exitStatus := 0\<rparr>) of
        None \<Rightarrow> None
      | Some (Inl e, st1) \<Rightarrow> Some (Inl e, st1\<lparr>exitStatus := 3\<rparr>)
      | Some (Inr u, st1) \<Rightarrow>
          (case Evaluator n x st1 tree False [] of
             None \<Rightarrow> None
           | Some (Inl e, st2) \<Rightarrow> Some (Inl e, st2\<lparr>exitStatus := 3\<rparr>)
           | Some (Inr v, st2) \<Rightarrow> Some (Inr v, st2)))"

section \<open>A concrete instance of the imported functions\<close>

text \<open>
  An instance of the parameters on which the theorems below are exercised: addition and
  subtraction of numbers, copying as the identity, no aliases and one constant.  Its
  \<open>getItems\<close> returns the row of the subscripts it is given, so that the result of an
  indexing shows what each subscript evaluated to.
\<close>

definition demo_tensorFn :: "string \<Rightarrow> node \<Rightarrow> node \<Rightarrow> error + node" where
  "demo_tensorFn f a b =
     (case (a, b) of
        (Number r i t, Number r' i' t') \<Rightarrow>
          if f = ''plus'' then Inr (Number (r + r') (i + i') t)
          else if f = ''minus'' then Inr (Number (r - r') (i - i') t)
          else Inl (EvalError (External f))
      | _ \<Rightarrow> Inl (EvalError (External f)))"

definition demo_ext :: ext where
  "demo_ext = \<lparr>constantsTable = [(''c'', Number 299792458 0 1)],
     nativeValue = (\<lambda>name. if name = ''true'' then Number 1 0 0
                    else if name = ''false'' then Number 0 0 0
                    else if name = ''pi'' then Number 3 0 1
                    else if name = ''e'' then Number 2 0 1
                    else if name \<in> set [''i'', ''I'', ''j'', ''J''] then Number 0 1 2
                    else Number 0 0 1),
     cd_one = Number 1 0 1,
     tensorFn = demo_tensorFn,
     tensorCopy = Inr,
     aliasName = (\<lambda>name. name),
     unparseNumber = (\<lambda>t. Inr ''0''),
     unparseString = (\<lambda>t. case t of String w \<Rightarrow> Inr w | _ \<Rightarrow> Inl TypeError),
     unparseTensor = (\<lambda>d rows. Inr (''['' @ concat (concat rows) @ '']'')),
     unparseNumberML = (\<lambda>t. Inr ''<mn>0</mn>''),
     unparseStringML = (\<lambda>t. case t of String w \<Rightarrow> Inr w | _ \<Rightarrow> Inl TypeError),
     unparseTensorML = (\<lambda>d rows. Inr (''<mtable>'' @ concat (concat rows) @ ''</mtable>'')),
     substSymbol = Inr,
     binOp = (\<lambda>f. if f = ''+'' then demo_tensorFn ''plus''
                  else if f = ''-'' then demo_tensorFn ''minus''
                  else (\<lambda>a b. Inl (EvalError (External f)))),
     unOp = (\<lambda>f a. Inr a),
     evaluateTensor = (\<lambda>ev st t l f. Some (Inr t, st)),
     expandRange = (\<lambda>a b c. Inl (EvalError (External ''expandRange''))),
     newNumber = (\<lambda>v. Number v 0 1),
     linearLength = (\<lambda>t. case t of Tensor d a c \<Rightarrow> Inr (int (prod_list d))
                               | _ \<Rightarrow> Inl TypeError),
     getDimension = (\<lambda>t k. case (t, k) of
                         (Tensor d a c, Some j) \<Rightarrow>
                            if j < length d then Inr (int (d ! j)) else Inl TypeError
                       | _ \<Rightarrow> Inl TypeError),
     logicalClass = 0,
     linearize = Inr,
     toTensor = Inr,
     getItems = (\<lambda>t name idx. Inr (Tensor [1, length idx] [idx] 1)),
     getItemsLogical = (\<lambda>t name idx. Inl (EvalError (External ''getItemsLogical''))),
     setItems = (\<lambda>nt name idx v. Inl (EvalError (External ''setItems''))),
     setItemsLogical = (\<lambda>nt name idx v. Inl (EvalError (External ''setItemsLogical''))),
     callFunc = (\<lambda>f as. Inl (EvalError (External f))),
     mapTensor = (\<lambda>f a. Inl (EvalError (External f))),
     cmdWordFunc = (\<lambda>f ws. None)\<rparr>"

definition demo_state :: state where
  "demo_state = (initialize demo_ext Map.empty [])\<lparr>fresh := 100\<rparr>"



definition demo_A :: node where
  "demo_A = Tensor [3, 4]
     [ [Number 1 0 1, Number 2 0 1, Number 3 0 1, Number 4 0 1],
      [Number 5 0 1, Number 6 0 1, Number 7 0 1, Number 8 0 1],
      [Number 9 0 1, Number 10 0 1, Number 11 0 1, Number 12 0 1] ] 1"

text \<open>The demonstration state with the 3-by-4 tensor \<open>A\<close> bound and \<open>abs\<close> built in.\<close>

definition demo_state_A :: state where
  "demo_state_A =
     demo_state\<lparr>nameTable := (nameTable demo_state)(''A'' \<mapsto> \<lparr>args = [], expr = demo_A\<rparr>),
       baseFunctionTable := [''abs'' \<mapsto> \<lparr>mapper = Some True, ev_flags = [],
                                unparserML_of = Some (MLTemplate ''abs'')\<rparr>]\<rparr>"

text \<open>The statement \<open>A(abs(end), 1)\<close>.\<close>

definition demo_end_in_call :: node where
  "demo_end_in_call =
     LIST 0 [ARG 1 (NAME 2 ''A'')
               [ARG 3 (NAME 4 ''abs'') [Reserved 5 ''ENDRANGE''], Number 1 0 1] ]"

text \<open>
  A state in which \<open>f(x) = x + 1\<close> is defined, \<open>x\<close> is bound to the unevaluated
  expression \<open>y\<close>, \<open>y\<close> is 5, and a frame of \<open>f\<close> binds \<open>x\<close> to 9.
\<close>

definition demo_state_f :: state where
  "demo_state_f =
     demo_state\<lparr>nameTable := (nameTable demo_state)
         (''f'' \<mapsto> \<lparr>args = [NAME 5 ''x''], expr = Op 6 ''+'' (NAME 7 ''x'') (Number 1 0 1)\<rparr>,
          ''x'' \<mapsto> \<lparr>args = [], expr = NAME 3 ''y''\<rparr>,
          ''y'' \<mapsto> \<lparr>args = [], expr = Number 5 0 1\<rparr>),
       localTable := [''f'' \<mapsto> (0, [''x'' \<mapsto> Number 9 0 1])]\<rparr>"

text \<open>A state in which \<open>x\<close> is 1 and \<open>y\<close> is not bound.\<close>

definition demo_state_x1 :: state where
  "demo_state_x1 =
     demo_state\<lparr>nameTable := (nameTable demo_state)(''x'' \<mapsto> \<lparr>args = [], expr = Number 1 0 1\<rparr>)\<rparr>"

text \<open>
  The state \<open>demo_state_A\<close> with the one link the parser has made in the tree of \<open>A(end)\<close>
  or \<open>A(1:end)\<close> before the evaluator sees it: \<open>nodeListFirst\<close> has set the \<open>parent\<close> of the
  subscript (node 5, or node 6 for the range) to the list node of the subscripts (node 9),
  which has no parent and is not part of the tree.
\<close>

definition demo_state_A_parsed :: state where
  "demo_state_A_parsed =
     demo_state_A\<lparr>parents := [5 \<mapsto> LRef 9 (TStr ''LIST'') [] 0,
                              6 \<mapsto> LRef 9 (TStr ''LIST'') [] 0]\<rparr>"

text \<open>The statements \<open>A(end)\<close>, \<open>A(1:end)\<close>, \<open>A(2, end)\<close> and the two statements \<open>7; A(end, 2)\<close>.\<close>

definition demo_A_end :: node where
  "demo_A_end = LIST 0 [ARG 2 (NAME 3 ''A'') [Reserved 5 ''ENDRANGE''] ]"

definition demo_A_range_end :: node where
  "demo_A_range_end =
     LIST 0 [ARG 2 (NAME 3 ''A'') [RANGE 6 (Number 1 0 1) (Reserved 5 ''ENDRANGE'') Undefined] ]"

definition demo_A_2_end :: node where
  "demo_A_2_end = LIST 0 [ARG 2 (NAME 3 ''A'') [Number 2 0 1, Reserved 5 ''ENDRANGE''] ]"

definition demo_A_end_2 :: node where
  "demo_A_end_2 =
     LIST 0 [Number 7 0 1, ARG 2 (NAME 3 ''A'') [Reserved 5 ''ENDRANGE'', Number 2 0 1] ]"

text \<open>
  The statements \<open>x = y\<close>, \<open>x += y\<close>, \<open>x = end\<close> and \<open>x\<close>, each the only statement of its
  list, for the state \<open>demo_state_x1\<close>, in which \<open>x\<close> is 1 and \<open>y\<close> is not bound.
\<close>

definition demo_x_assign_y :: node where
  "demo_x_assign_y = LIST 0 [Op 10 ''='' (NAME 2 ''x'') (NAME 3 ''y'')]"

definition demo_x_add_assign_y :: node where
  "demo_x_add_assign_y = LIST 0 [Op 10 ''+='' (NAME 2 ''x'') (NAME 3 ''y'')]"

definition demo_x_assign_end :: node where
  "demo_x_assign_end = LIST 0 [Op 10 ''='' (NAME 2 ''x'') (Reserved 3 ''ENDRANGE'')]"

definition demo_read_x :: node where
  "demo_read_x = LIST 20 [NAME 21 ''x'']"

text \<open>A state in which \<open>f(x) = x + 1\<close> is defined and the global \<open>x\<close> is 10.\<close>

definition demo_state_call :: state where
  "demo_state_call =
     demo_state\<lparr>nameTable := (nameTable demo_state)
         (''f'' \<mapsto> \<lparr>args = [NAME 5 ''x''], expr = Op 6 ''+'' (NAME 7 ''x'') (Number 1 0 1)\<rparr>,
          ''x'' \<mapsto> \<lparr>args = [], expr = Number 10 0 1\<rparr>)\<rparr>"


definition demo_define_f1 :: node where
  "demo_define_f1 =
     LIST 0 [Op 10 ''='' (ARG 2 (NAME 3 ''f'') [NAME 5 ''t''])
               (Op 4 ''+'' (NAME 6 ''t'') (Number 2 0 1))]"

definition demo_index_f :: node where
  "demo_index_f = LIST 0 [Op 10 ''='' (ARG 2 (NAME 3 ''f'') [NAME 5 ''x'']) (Number 5 0 1)]"


definition demo_define_f_inherited :: node where
  "demo_define_f_inherited =
     LIST 0 [Op 10 ''='' (ARG 2 (NAME 3 ''f'') [NAME 5 ''constructor'']) (Number 5 0 1)]"




section \<open>Verification\<close>

subsection \<open>The name table under seeding and clearing\<close>

lemma nameTable_foldl_clear:
  "nameTable (foldl clear_one st names) =
     (\<lambda>k. if k \<in> set names \<and> k \<notin> set (readonlyNameTable st) then None else nameTable st k)
   \<and> readonlyNameTable (foldl clear_one st names) = readonlyNameTable st"
proof (induction names arbitrary: st)
  case Nil
  then show ?case by simp
next
  case (Cons a names)
  show ?case
    using Cons.IH [of "clear_one st a"]
    by (auto simp: clear_one_def fun_eq_iff)
qed

lemma seed_tables:
  "nameTable (foldl seed st ps) =
     nameTable st ++ map_of (rev (map (\<lambda>p. (fst p, \<lparr>args = [], expr = snd p\<rparr>)) ps))"
  "readonlyNameTable (foldl seed st ps) = readonlyNameTable st @ map fst ps"
  "localTable (foldl seed st ps) = localTable st"
  by (induction ps arbitrary: st)
    (auto simp: seed_def map_add_upd_left fun_eq_iff map_add_def split: option.splits)

lemma demo_state_e: "nameTable demo_state ''e'' = Some \<lparr>args = [], expr = Number 2 0 1\<rparr>"
  by (simp add: demo_state_def initialize_def loadNativeTable_def nativeNames_def seed_def
      demo_ext_def)

lemma demo_state_pi: "nameTable demo_state ''pi'' = Some \<lparr>args = [], expr = Number 3 0 1\<rparr>"
  by (simp add: demo_state_def initialize_def loadNativeTable_def nativeNames_def seed_def
      demo_ext_def)

lemma demo_state_readonly:
  "readonlyNameTable demo_state =
     [''false'', ''true'', ''i'', ''I'', ''j'', ''J'', ''e'', ''pi'', ''inf'', ''Inf'', ''nan'',
      ''NaN'', ''c'']"
  by (simp add: demo_state_def initialize_def loadNativeTable_def nativeNames_def seed_def
      demo_ext_def)



subsection \<open>Increment and decrement\<close>

text \<open>
  C10.  When the operand is a NAME whose entry holds a value, on which the addition (or
  subtraction) of one and the copy succeed: the prefix form stores the sum in the entry and
  returns the stored value; the postfix form returns the copy of the prior value and stores
  the same sum.  An operand object that is not a NAME node fails with a SyntaxError and
  leaves the state as it was.  The evaluator links the operand to the operation node and
  applies the prefix form with \<open>plus\<close> for \<open>++_\<close>, with \<open>minus\<close> for \<open>--_\<close>, and the
  postfix form likewise for \<open>_++\<close> and \<open>_--\<close>, to the operand node itself.
\<close>

theorem incDecOp_NAME:
  assumes "nameTable st i = Some en" and "isObject (expr en)"
    and "tensorFn x operation (expr en) (cd_one x) = Inr v"
    and "tensorCopy x (expr en) = Inr c"
  shows "incDecOp x True operation st (NAME n i) =
           (Inr v, st\<lparr>nameTable := (nameTable st)(i \<mapsto> en\<lparr>expr := v\<rparr>)\<rparr>)
       \<and> incDecOp x False operation st (NAME n i) =
           (Inr c, st\<lparr>nameTable := (nameTable st)(i \<mapsto> en\<lparr>expr := v\<rparr>)\<rparr>)
       \<and> (\<forall>t. isObject t \<and> node_type t \<noteq> TStr ''NAME'' \<longrightarrow>
             incDecOp x pre operation st t = (Inl (SyntaxError (InvalidIncDec operation)), st))
       \<and> Evaluator (Suc n') x s (Op m ''++_'' l r) local fname =
           bindR (setParent r (Some (LRef m (TStr ''++_'') [] 0)) s)
             (\<lambda>u s'. Some (incDecOp x True ''plus'' s' r))
       \<and> Evaluator (Suc n') x s (Op m ''--_'' l r) local fname =
           bindR (setParent r (Some (LRef m (TStr ''--_'') [] 0)) s)
             (\<lambda>u s'. Some (incDecOp x True ''minus'' s' r))
       \<and> Evaluator (Suc n') x s (Op m ''_++'' l r) local fname =
           bindR (setParent l (Some (LRef m (TStr ''_++'') [] 0)) s)
             (\<lambda>u s'. Some (incDecOp x False ''plus'' s' l))
       \<and> Evaluator (Suc n') x s (Op m ''_--'' l r) local fname =
           bindR (setParent l (Some (LRef m (TStr ''_--'') [] 0)) s)
             (\<lambda>u s'. Some (incDecOp x False ''minus'' s' l))"
proof -
  have d: "Evaluator (Suc n') x s (Op m ''++_'' l r) local fname =
           bindR (setParent r (Some (LRef m (TStr ''++_'') [] 0)) s)
             (\<lambda>u s'. Some (incDecOp x True ''plus'' s' r))"
    "Evaluator (Suc n') x s (Op m ''--_'' l r) local fname =
           bindR (setParent r (Some (LRef m (TStr ''--_'') [] 0)) s)
             (\<lambda>u s'. Some (incDecOp x True ''minus'' s' r))"
    "Evaluator (Suc n') x s (Op m ''_++'' l r) local fname =
           bindR (setParent l (Some (LRef m (TStr ''_++'') [] 0)) s)
             (\<lambda>u s'. Some (incDecOp x False ''plus'' s' l))"
    "Evaluator (Suc n') x s (Op m ''_--'' l r) local fname =
           bindR (setParent l (Some (LRef m (TStr ''_--'') [] 0)) s)
             (\<lambda>u s'. Some (incDecOp x False ''minus'' s' l))"
    by (simp_all add: binary_ops_def assign_ops_def bs_def sq_def)
  have a: "incDecOp x True operation st (NAME n i) =
           (Inr v, st\<lparr>nameTable := (nameTable st)(i \<mapsto> en\<lparr>expr := v\<rparr>)\<rparr>)"
    "incDecOp x False operation st (NAME n i) =
           (Inr c, st\<lparr>nameTable := (nameTable st)(i \<mapsto> en\<lparr>expr := v\<rparr>)\<rparr>)"
    using assms by (simp_all add: incDecOp_def tableGet_def)
  have b: "\<forall>t. isObject t \<and> node_type t \<noteq> TStr ''NAME'' \<longrightarrow>
             incDecOp x pre operation st t = (Inl (SyntaxError (InvalidIncDec operation)), st)"
    by (simp add: incDecOp_def)
  show ?thesis
    by (intro conjI a b d)
qed

theorem incDecOp_NAME_witness:
  "incDecOp demo_ext True ''plus'' demo_state (NAME 0 ''e'') =
     (Inr (Number 3 0 1),
      demo_state\<lparr>nameTable := (nameTable demo_state)(''e'' \<mapsto> \<lparr>args = [], expr = Number 3 0 1\<rparr>)\<rparr>)
   \<and> incDecOp demo_ext False ''plus'' demo_state (NAME 0 ''e'') =
     (Inr (Number 2 0 1),
      demo_state\<lparr>nameTable := (nameTable demo_state)(''e'' \<mapsto> \<lparr>args = [], expr = Number 3 0 1\<rparr>)\<rparr>)
   \<and> incDecOp demo_ext False ''plus'' demo_state (Number 5 0 1) =
     (Inl (SyntaxError (InvalidIncDec ''plus'')), demo_state)"
  using incDecOp_NAME [of demo_state "''e''" "\<lparr>args = [], expr = Number 2 0 1\<rparr>" demo_ext
      "''plus''" "Number 3 0 1" "Number 2 0 1" 0 False] demo_state_e
  by (simp add: demo_ext_def demo_tensorFn_def)

subsection \<open>The unparsers\<close>

text \<open>
  C7 (as amended).  For every tree, \<open>Unparse\<close> returns a string, and that string is the
  placeholder \<open><ERROR>\<close> whenever its \<open>try\<close> block fails.  \<open>unparserML\<close> does the same
  with the placeholder \<open><mi>error</mi>\<close> as long as the debug flag is off; with the debug
  flag on, the error of its \<open>try\<close> block leaves the function.
\<close>

theorem unparsers_catch:
  "(\<exists>w. Unparse x t = Inr w \<and> (\<forall>e. Unparse_try x t = Inl e \<longrightarrow> w = ''<ERROR>''))
   \<and> (\<exists>w. unparserML x st False t = Inr w
          \<and> (\<forall>e. unparserML_try x st False t = Inl e \<longrightarrow> w = ''<mi>error</mi>''))
   \<and> (\<forall>e. unparserML_try x st True t = Inl e \<longrightarrow> unparserML x st True t = Inl e)"
  by (simp add: Unparse.simps unparserML.simps split: sum.split)

theorem unparsers_catch_witness:
  "Unparse demo_ext Null = Inr ''<ERROR>''
   \<and> unparserML demo_ext demo_state False (ARG 0 Undefined [NAME 2 ''x'']) =
       Inr ''<mi>error</mi>''"
proof -
  have a: "Unparse_try demo_ext Null = Inl TypeError"
    by (simp add: Unparse_try.simps)
  have u: "unparserML demo_ext demo_state False (NAME 2 ''x'') = Inr ''<mi>x</mi>''"
    by (simp add: unparserML.simps unparserML_try.simps demo_ext_def)
  have b: "unparserML_try demo_ext demo_state False (ARG 0 Undefined [NAME 2 ''x'']) =
      Inl TypeError"
    by (simp add: unparserML_try.simps u)
  show ?thesis
    using unparsers_catch [of demo_ext Null demo_state]
      unparsers_catch [of demo_ext "ARG 0 Undefined [NAME 2 ''x'']" demo_state] a b
    by auto
qed

text \<open>
  With the debug flag on, rendering a call node whose callee is still undefined lets the
  TypeError through: the claim that no unparser ever propagates an error fails there.
\<close>

theorem unparserML_debug_counterexample:
  "unparserML demo_ext demo_state True (ARG 0 Undefined [NAME 2 ''x'']) = Inl TypeError"
proof -
  have u: "unparserML demo_ext demo_state True (NAME 2 ''x'') = Inr ''<mi>x</mi>''"
    by (simp add: unparserML.simps unparserML_try.simps demo_ext_def)
  have b: "unparserML_try demo_ext demo_state True (ARG 0 Undefined [NAME 2 ''x'']) =
      Inl TypeError"
    by (simp add: unparserML_try.simps u)
  show ?thesis
    by (simp add: unparserML.simps b)
qed

subsection \<open>Evaluating the model on concrete inputs\<close>

lemma bindR_simps:
  "bindR None f = None"
  "bindR (Some (Inl e, st)) f = Some (Inl e, st)"
  "bindR (Some (Inr v, st)) f = f v st"
  by (simp_all add: bindR_def)

text \<open>The continuation of a bind is simplified only once its first argument is a value.\<close>

lemma bindR_cong: "m = m' \<Longrightarrow> bindR m f = bindR m' f"
  by simp

lemmas Evaluator_numeral =
  Evaluator.simps(2) [of "pred_numeral k", folded numeral_eq_Suc] for k

lemmas eval_defs = Evaluate_def eval_NAME_def eval_LIST_def eval_RANGE_def eval_CmdWList_def
  eval_ARG_def eval_assign_def eval_ENDRANGE_def eval_colon_def
  bindR_simps ret_def throw_def liftE_def setParent_def setIndex_def parentOf_def
  reduceIfReturnList_def evalReduce_def localLookup_def alloc_def toCmdWList_def setAns_def
  indexInto_def putLocal_def callFunction_def nodeOp_def wrapSel_def selValue_def
  compoundValue_def entryExpr_def storeTable_def pushIndexed_def nameDefinition_def
  indexedAssign_def compoundAssign_def assignTarget_def assignResult_def boundTensor_def
  parentIndex_def incDecOp_def binary_ops_def assign_ops_def bs_def sq_def
  tableGet_def frameGet_def protoKeys_def

lemma demo_ext_fields:
  "aliasName demo_ext = (\<lambda>name. name)"
  "newNumber demo_ext = (\<lambda>v. Number v 0 1)"
  "cd_one demo_ext = Number 1 0 1"
  "logicalClass demo_ext = 0"
  "linearize demo_ext = Inr" "toTensor demo_ext = Inr"
  "tensorFn demo_ext = demo_tensorFn" "tensorCopy demo_ext = Inr"
  "evaluateTensor demo_ext = (\<lambda>ev st t l f. Some (Inr t, st))"
  "callFunc demo_ext = (\<lambda>f as. Inl (EvalError (External f)))"
  "mapTensor demo_ext = (\<lambda>f a. Inl (EvalError (External f)))"
  "binOp demo_ext ''+'' = demo_tensorFn ''plus''"
  by (simp_all add: demo_ext_def)

lemma demo_state_fields:
  "nameTable demo_state ''x'' = None"
  "nameTable demo_state ''y'' = None"
  "nameTable demo_state ''f'' = None"
  "nameTable demo_state ''ans'' = None"
  "nameTable demo_state ''__proto__'' = None"
  "baseFunctionTable demo_state = Map.empty"
  "localTable demo_state = Map.empty"
  "parents demo_state = Map.empty"
  "indexes demo_state = Map.empty"
  "fresh demo_state = 100"
  "commandsTable demo_state = []"
  by (simp_all add: demo_state_def initialize_def loadNativeTable_def
      nativeNames_def seed_def demo_ext_def)

lemma demo_state_A_fields:
  "nameTable demo_state_A ''A'' = Some \<lparr>args = [], expr = demo_A\<rparr>"
  "nameTable demo_state_A ''abs'' = None"
  "nameTable demo_state_A ''__proto__'' = None"
  "baseFunctionTable demo_state_A ''A'' = None"
  "baseFunctionTable demo_state_A ''abs'' =
     Some \<lparr>mapper = Some True, ev_flags = [], unparserML_of = Some (MLTemplate ''abs'')\<rparr>"
  "localTable demo_state_A = Map.empty"
  "parents demo_state_A = Map.empty"
  "indexes demo_state_A = Map.empty"
  "fresh demo_state_A = 100"
  "commandsTable demo_state_A = []"
  by (simp_all add: demo_state_A_def demo_state_fields)
    (simp_all add: demo_state_def initialize_def loadNativeTable_def
      nativeNames_def seed_def demo_ext_def)

lemma demo_A_tensor: "isTensor demo_A" "\<not> isNumber demo_A" "\<not> isString demo_A"
  "isObject demo_A" "nid demo_A = None" "node_type demo_A = TNum 1"
  by (simp_all add: demo_A_def)

subsection \<open>Lists and the last result\<close>

text \<open>
  C8 (as amended).  A LIST node is evaluated by the loop \<open>listLoop\<close> over its children, in
  order, under a fresh result node.  A child is linked, reduced, and the rest of the list is
  reduced from the state \<open>setAns\<close> makes of the state the child left; an error of a child
  ends the loop.  \<open>setAns\<close> binds \<open>ans\<close> to the result exactly when the result is a number or
  a tensor, the two kinds of value whose \<open>type\<close> is a number, and changes nothing otherwise.
\<close>

theorem LIST_ans:
  "Evaluator (Suc n) x st (LIST m xs) local fname =
     bindR (listLoop (Evaluator n x) (LRef (fresh st) (TStr ''LIST'') [] 0) local fname 0 xs
              (st\<lparr>fresh := Suc (fresh st),
                  parents := (parents st)(fresh st \<mapsto>
                     (if parents st m = Some LNull then LNull
                      else LRef m (TStr ''LIST'') [] 0))\<rparr>))
       (\<lambda>rs. ret (LIST (fresh st) rs))
   \<and> listLoop ev p local fname i [] s = Some (Inr [], s)
   \<and> (setParent (toCmdWList s local fname a) (Some p) s = Some (Inr (), s1)
        \<and> setIndex (toCmdWList s local fname a) i s1 = Some (Inr (), s2) \<longrightarrow>
        (evalReduce ev (toCmdWList s local fname a) local fname s2 = Some (Inr r, s3) \<longrightarrow>
           listLoop ev p local fname i (a # as) s =
             bindR (listLoop ev p local fname (Suc i) as (setAns r s3)) (\<lambda>rs. ret (r # rs)))
      \<and> (evalReduce ev (toCmdWList s local fname a) local fname s2 = Some (Inl e, s3) \<longrightarrow>
           listLoop ev p local fname i (a # as) s = Some (Inl e, s3)))
   \<and> setAns r s3 =
       (if isNumber r \<or> isTensor r
        then s3\<lparr>nameTable := (nameTable s3)(''ans'' \<mapsto> \<lparr>args = [], expr = r\<rparr>)\<rparr>
        else s3)"
proof -
  have a: "setAns r s3 =
       (if isNumber r \<or> isTensor r
        then s3\<lparr>nameTable := (nameTable s3)(''ans'' \<mapsto> \<lparr>args = [], expr = r\<rparr>)\<rparr>
        else s3)"
    by (cases r) (simp_all add: setAns_def)
  have b: "Evaluator (Suc n) x st (LIST m xs) local fname =
     bindR (listLoop (Evaluator n x) (LRef (fresh st) (TStr ''LIST'') [] 0) local fname 0 xs
              (st\<lparr>fresh := Suc (fresh st),
                  parents := (parents st)(fresh st \<mapsto>
                     (if parents st m = Some LNull then LNull
                      else LRef m (TStr ''LIST'') [] 0))\<rparr>))
       (\<lambda>rs. ret (LIST (fresh st) rs))"
    by (simp add: eval_LIST_def alloc_def Let_def)
  show ?thesis
    using a b by (simp add: bindR_simps ret_def Let_def)
qed

theorem LIST_ans_witness:
  "Evaluator 3 demo_ext demo_state (LIST 0 [Number 5 0 1, String ''hi'']) False [] =
     Some (Inr (LIST 100 [Number 5 0 1, String ''hi'']),
           demo_state\<lparr>fresh := 101, parents := [100 \<mapsto> LRef 0 (TStr ''LIST'') [] 0],
             nameTable := (nameTable demo_state)(''ans'' \<mapsto> \<lparr>args = [], expr = Number 5 0 1\<rparr>)\<rparr>)"
proof -
  let ?p = "LRef 100 (TStr ''LIST'') [] 0"
  let ?s = "demo_state\<lparr>fresh := 101, parents := [100 \<mapsto> LRef 0 (TStr ''LIST'') [] 0]\<rparr>"
  let ?s' = "?s\<lparr>nameTable := (nameTable demo_state)(''ans'' \<mapsto> \<lparr>args = [], expr = Number 5 0 1\<rparr>)\<rparr>"
  let ?ev = "Evaluator 2 demo_ext"
  have s: "Suc 2 = 3" by simp
  have e1: "evalReduce ?ev (Number 5 0 1) False [] st = Some (Inr (Number 5 0 1), st)" for st
    by (simp add: evalReduce_def Evaluator_numeral ret_def bindR_simps reduceIfReturnList_def)
  have e2: "evalReduce ?ev (String ''hi'') False [] st = Some (Inr (String ''hi''), st)" for st
    by (simp add: evalReduce_def Evaluator_numeral ret_def bindR_simps reduceIfReturnList_def)
  have t: "toCmdWList st False [] (Number 5 0 1) = Number 5 0 1"
    "toCmdWList st False [] (String ''hi'') = String ''hi''" for st
    by (simp_all add: toCmdWList_def)
  have l2: "listLoop ?ev ?p False [] (Suc 0) [String ''hi''] ?s' = Some (Inr [String ''hi''], ?s')"
    using LIST_ans [where ev = ?ev and p = ?p and local = False and fname = "[]" and i = "Suc 0"
        and s = ?s' and a = "String ''hi''" and as = "[]" and ?s1.0 = ?s' and ?s2.0 = ?s'
        and r = "String ''hi''" and ?s3.0 = ?s']
      LIST_ans [where ev = ?ev and p = ?p and local = False and fname = "[]" and i = "Suc (Suc 0)"
        and s = ?s']
    by (simp add: t e2 setParent_def setIndex_def ret_def bindR_simps Let_def setAns_def)
  have l1: "listLoop ?ev ?p False [] 0 [Number 5 0 1, String ''hi''] ?s =
      Some (Inr [Number 5 0 1, String ''hi''], ?s')"
    using LIST_ans [where ev = ?ev and p = ?p and local = False and fname = "[]" and i = 0
        and s = ?s and a = "Number 5 0 1" and as = "[String ''hi'']" and ?s1.0 = ?s
        and ?s2.0 = ?s and r = "Number 5 0 1" and ?s3.0 = ?s] l2
    by (simp add: t e1 e2 setParent_def setIndex_def ret_def bindR_simps Let_def setAns_def)
  show ?thesis
    using LIST_ans [where n = 2 and x = demo_ext and st = demo_state and m = 0
        and xs = "[Number 5 0 1, String ''hi'']" and local = False and fname = "[]"] l1
    by (simp add: s demo_state_fields bindR_simps ret_def)
qed

text \<open>
  A child that reduces to a tensor, which is not a bare scalar, updates \<open>ans\<close> as well.
\<close>

theorem LIST_ans_tensor_counterexample:
  "nameTable (snd (the (Evaluator 3 demo_ext demo_state (LIST 0 [demo_A]) False []))) ''ans'' =
     Some \<lparr>args = [], expr = demo_A\<rparr>
   \<and> \<not> isNumber demo_A"
  by (simp add: eval_defs demo_ext_fields demo_state_fields demo_A_def
      Evaluator_numeral Let_def cong: bindR_cong let_weak_cong)

subsection \<open>Calls of user-defined functions\<close>

lemma demo_state_call_fields:
  "nameTable demo_state_call ''f'' =
     Some \<lparr>args = [NAME 5 ''x''], expr = Op 6 ''+'' (NAME 7 ''x'') (Number 1 0 1)\<rparr>"
  "nameTable demo_state_call ''x'' = Some \<lparr>args = [], expr = Number 10 0 1\<rparr>"
  "nameTable demo_state_call ''__proto__'' = None"
  "baseFunctionTable demo_state_call = Map.empty"
  "localTable demo_state_call = Map.empty"
  "parents demo_state_call = Map.empty"
  "indexes demo_state_call = Map.empty"
  "fresh demo_state_call = 100"
  "commandsTable demo_state_call = []"
  by (simp_all add: demo_state_call_def demo_state_fields)

text \<open>
  A call of a user-defined function with the wrong number of arguments fails with the arity
  error before a frame is created.
\<close>

lemma call_arity_mismatch:
  assumes "baseFunctionTable st (aliasName x i) = None"
    and "aliasName x i \<notin> set protoKeys"
    and "localLookup st local fname i = None"
    and "nameTable st i = Some en"
    and "length (args en) \<noteq> 0"
    and "length (args en) \<noteq> length as"
  shows "Evaluator (Suc n) x st (ARG m (NAME k i) as) local fname =
           Some (Inl (EvalError (InvalidArity i)),
                 st\<lparr>parents := (parents st)(k \<mapsto> LRef m (TStr ''ARG'') i (length as))\<rparr>)"
proof -
  let ?s = "st\<lparr>parents := (parents st)(k \<mapsto> LRef m (TStr ''ARG'') i (length as))\<rparr>"
  have l: "localLookup ?s local fname i = None"
    using assms(3) by (cases local) (simp_all add: localLookup_def)
  show ?thesis
    using assms l
    by (simp add: eval_ARG_def setParent_def ret_def bindR_simps callFunction_def throw_def
        tableGet_def)
qed

text \<open>
  C5.  With \<open>f(x) = x + 1\<close> and a global \<open>x = 10\<close>: \<open>f(3)\<close> is 4, the parameter
  shadowing the global, and \<open>f(3, 3)\<close> fails with the arity error.  In \<open>f(f(3))\<close> the arity
  matches and the argument reduces to 4, but the inner call deletes the frame the outer call
  has just created: the 4 is written to a frame that is no longer in the local table, the
  body is reduced without a frame and reads the global \<open>x\<close>.  The result is 11, where the
  claim gives 5.
\<close>

theorem nested_call_loses_frame:
  "map_option fst (Evaluator 6 demo_ext demo_state_call
       (ARG 11 (NAME 12 ''f'') [Number 3 0 1]) False []) = Some (Inr (Number 4 0 1))
   \<and> map_option fst (Evaluator 6 demo_ext demo_state_call
       (ARG 11 (NAME 12 ''f'') [ARG 13 (NAME 14 ''f'') [Number 3 0 1] ]) False []) =
     Some (Inr (Number 11 0 1))
   \<and> map_option fst (Evaluator 6 demo_ext demo_state_call
       (ARG 11 (NAME 12 ''f'') [Number 3 0 1, Number 3 0 1]) False []) =
     Some (Inl (EvalError (InvalidArity ''f'')))"
  by (simp add: eval_defs demo_ext_fields demo_state_call_fields
      demo_tensorFn_def Evaluator_numeral Let_def cong: bindR_cong let_weak_cong)

subsection \<open>Assignment\<close>

lemma assign_not_other:
  "t \<in> set assign_ops \<Longrightarrow>
     t \<notin> set binary_ops \<and> t \<noteq> ''()'' \<and> t \<noteq> ''+_'' \<and> t \<noteq> ''-_'' \<and> t \<noteq> ''++_''
     \<and> t \<noteq> ''--_'' \<and> t \<noteq> ''.'' @ sq \<and> t \<noteq> sq \<and> t \<noteq> ''_++'' \<and> t \<noteq> ''_--''"
  by (auto simp: assign_ops_def binary_ops_def bs_def sq_def)

lemma Evaluator_assign:
  "t \<in> set assign_ops \<Longrightarrow>
     Evaluator (Suc n) x st (Op m t l r) local fname =
       eval_assign (Evaluator n x) x st (Op m t l r) local fname"
  using assign_not_other [of t] by simp

lemma butlast_assign:
  "t \<in> set assign_ops \<Longrightarrow> butlast t \<noteq> [] \<Longrightarrow> butlast t \<in> set binary_ops"
  by (auto simp: assign_ops_def binary_ops_def bs_def sq_def)

text \<open>An assignment to a read-only target fails in \<open>validateAssignment\<close>.\<close>

lemma readonly_target:
  assumes "i \<in> set (readonlyNameTable st)"
    and "l = NAME k i \<or> l = ARG k (NAME k' i) as"
  shows "validateAssignment st l True = Inl (EvalError (ReadOnly i))"
  using assms by auto

text \<open>
  The targets of a row are validated from left to right; the first that fails ends the
  validation.
\<close>

lemma sequence_first_error:
  assumes "\<forall>p \<in> set pre. \<exists>v. f p = Inr v" and "f tg = Inl e"
  shows "sequence (map f (pre @ tg # post)) = Inl e"
  using assms
proof (induction pre)
  case Nil
  then show ?case by simp
next
  case (Cons p pre)
  then obtain v where "f p = Inr v" by auto
  with Cons show ?case by simp
qed

lemma sequence_some_error:
  assumes "tg \<in> set row" and "f tg = Inl e"
  shows "\<exists>p \<in> set row. \<exists>e'. f p = Inl e' \<and> sequence (map f row) = Inl e'"
  using assms
proof (induction row)
  case Nil
  then show ?case by simp
next
  case (Cons p row)
  show ?case
  proof (cases "f p")
    case (Inl e')
    then show ?thesis by auto
  next
    case (Inr v)
    with Cons.prems have "tg \<in> set row" by auto
    from Cons.IH [OF this Cons.prems(2)] obtain q e' where
      q: "q \<in> set row" "f q = Inl e'" "sequence (map f row) = Inl e'" by blast
    then show ?thesis using Inr by auto
  qed
qed

lemma readonly_row:
  assumes "i \<in> set (readonlyNameTable st)"
    and "tg = NAME k i \<or> tg = ARG k (NAME k' i) as"
    and "d \<noteq> []" and "hd d = 1"
    and "\<forall>p \<in> set pre. (\<exists>q j. p = NAME q j \<and> j \<notin> set (readonlyNameTable st))
            \<or> (\<exists>q q' j bs. p = ARG q (NAME q' j) bs \<and> j \<notin> set (readonlyNameTable st))
            \<or> (\<exists>q. p = Reserved q ''<~>'')"
  shows "validateAssignment st (Tensor d ((pre @ tg # post) # rows) ty) True =
           Inl (EvalError (ReadOnly i))"
proof -
  let ?f = "\<lambda>left. case validateTarget st left of Some r \<Rightarrow> r
                    | None \<Rightarrow> Inl (EvalError InvalidLeft)"
  have a: "\<forall>p \<in> set pre. \<exists>v. ?f p = Inr v"
    using assms(5) by auto
  have b: "?f tg = Inl (EvalError (ReadOnly i))"
    using assms(1,2) by auto
  show ?thesis
    using assms(3,4) sequence_first_error [of pre ?f tg "EvalError (ReadOnly i)" post, OF a b]
    by simp
qed


lemma target_errors:
  assumes "(case validateTarget st left of Some r \<Rightarrow> r | None \<Rightarrow> Inl (EvalError InvalidLeft))
             = Inl e"
  shows "e = TypeError \<or> e = EvalError InvalidLeft
         \<or> (\<exists>j \<in> set (readonlyNameTable st). e = EvalError (ReadOnly j))"
  using assms by (cases "(st, left)" rule: validateTarget.cases) (auto split: if_splits)

lemma readonly_in_row:
  assumes "i \<in> set (readonlyNameTable st)"
    and "tg = NAME k i \<or> tg = ARG k (NAME k' i) as"
    and "tg \<in> set row"
  shows "\<exists>e. validateAssignment st (Tensor d (row # rows) ty) True = Inl e
           \<and> (e = TypeError \<or> e = EvalError InvalidLeft
                \<or> (\<exists>j \<in> set (readonlyNameTable st). e = EvalError (ReadOnly j)))"
proof -
  let ?f = "\<lambda>left. case validateTarget st left of Some r \<Rightarrow> r
                    | None \<Rightarrow> Inl (EvalError InvalidLeft)"
  have b: "?f tg = Inl (EvalError (ReadOnly i))"
    using assms(1,2) by auto
  from sequence_some_error [of tg row ?f, OF assms(3) b] obtain p e' where
    p: "?f p = Inl e'" "sequence (map ?f row) = Inl e'" by blast
  note te = target_errors [OF p(1)]
  show ?thesis
  proof (cases "d \<noteq> [] \<and> hd d = 1")
    case True
    then show ?thesis using p(2) te by simp
  next
    case False
    then show ?thesis by auto
  qed
qed

lemma setParent_fields:
  "setParent c l st = Some (Inr u, st') \<Longrightarrow>
     nameTable st' = nameTable st \<and> readonlyNameTable st' = readonlyNameTable st
     \<and> localTable st' = localTable st \<and> baseFunctionTable st' = baseFunctionTable st
     \<and> fresh st' = fresh st \<and> indexes st' = indexes st"
  by (auto simp: setParent_def ret_def throw_def split: if_splits option.splits)

lemma setParent_object:
  "isObject c \<Longrightarrow> \<exists>st'. setParent c l st = Some (Inr (), st')"
  by (auto simp: setParent_def ret_def split: option.splits)

text \<open>
  An assignment whose left-hand side fails validation ends with that error, after the two
  operands have been linked to the assignment node and before anything else is done.
\<close>

lemma invalid_target_fails:
  assumes "t \<in> set assign_ops" and "isObject l" and "isObject r"
    and "\<And>s. readonlyNameTable s = readonlyNameTable st \<Longrightarrow> validateAssignment s l True = Inl e"
  shows "\<exists>st'. Evaluator (Suc n) x st (Op m t l r) local fname = Some (Inl e, st')
            \<and> nameTable st' = nameTable st \<and> readonlyNameTable st' = readonlyNameTable st
            \<and> localTable st' = localTable st"
proof -
  from setParent_object [OF assms(2)] obtain sa where
    sa: "setParent l (Some (ref (Op m t l r))) st = Some (Inr (), sa)" by blast
  from setParent_object [OF assms(3)] obtain sb where
    sb: "setParent r (Some (ref (Op m t l r))) sa = Some (Inr (), sb)" by blast
  note fa = setParent_fields [OF sa] and fb = setParent_fields [OF sb]
  have v: "validateAssignment sb l True = Inl e"
    using assms(4) fa fb by simp
  have "Evaluator (Suc n) x st (Op m t l r) local fname = Some (Inl e, sb)"
    unfolding Evaluator_assign [OF assms(1)] eval_assign_def
    by (simp add: sa sb v bindR_simps liftE_def del: validateAssignment.simps ref.simps)
  then show ?thesis using fa fb by simp
qed


text \<open>
  C4.  An assignment, with any assignment operator, whose target is a read-only name or an
  indexed read-only name fails with the read-only EvalError; the name table, the read-only
  list and the local table are as before.  The same holds when the target stands in the row
  of a multiple assignment after targets that can be written; and whatever stands before
  it in the row, the assignment fails, with the error of the first target of the row
  that is refused, and changes none of the three.  \<open>Clear\<close> with names leaves the entry of
  every read-only name as it is, and \<open>Clear\<close> without names leaves every seeded name bound
  to its seeded value.
\<close>

theorem readonly_protected:
  "(i \<in> set (readonlyNameTable st) \<and> t \<in> set assign_ops \<and> isObject r
      \<and> (l = NAME k i \<or> l = ARG k (NAME k' i) as) \<longrightarrow>
      (\<exists>st'. Evaluator (Suc n) x st (Op m t l r) local fname =
                Some (Inl (EvalError (ReadOnly i)), st')
            \<and> nameTable st' = nameTable st \<and> readonlyNameTable st' = readonlyNameTable st
            \<and> localTable st' = localTable st))
   \<and> (i \<in> set (readonlyNameTable st) \<and> t \<in> set assign_ops \<and> isObject r
      \<and> (tg = NAME k i \<or> tg = ARG k (NAME k' i) as) \<and> d \<noteq> [] \<and> hd d = 1
      \<and> (\<forall>p \<in> set pre.
             (\<exists>q j. p = NAME q j \<and> j \<notin> set (readonlyNameTable st))
           \<or> (\<exists>q q' j bs. p = ARG q (NAME q' j) bs \<and> j \<notin> set (readonlyNameTable st))
           \<or> (\<exists>q. p = Reserved q ''<~>'')) \<longrightarrow>
      (\<exists>st'. Evaluator (Suc n) x st
                 (Op m t (Tensor d ((pre @ tg # post) # rows) ty) r) local fname =
                Some (Inl (EvalError (ReadOnly i)), st')
            \<and> nameTable st' = nameTable st \<and> readonlyNameTable st' = readonlyNameTable st
            \<and> localTable st' = localTable st))
   \<and> (i \<in> set (readonlyNameTable st) \<and> t \<in> set assign_ops \<and> isObject r
      \<and> (tg = NAME k i \<or> tg = ARG k (NAME k' i) as) \<and> tg \<in> set row \<longrightarrow>
      (\<exists>e st'. Evaluator (Suc n) x st (Op m t (Tensor d (row # rows) ty) r) local fname =
                Some (Inl e, st')
            \<and> (e = TypeError \<or> e = EvalError InvalidLeft
                 \<or> (\<exists>j \<in> set (readonlyNameTable st). e = EvalError (ReadOnly j)))
            \<and> nameTable st' = nameTable st \<and> readonlyNameTable st' = readonlyNameTable st
            \<and> localTable st' = localTable st))
   \<and> (\<forall>j \<in> set (readonlyNameTable st).
         names \<noteq> [] \<longrightarrow> nameTable (Clear x st names) j = nameTable st j)
   \<and> (\<forall>j \<in> set (readonlyNameTable (initialize x bft cmds)).
         nameTable (Clear x st []) j = nameTable (initialize x bft cmds) j
         \<and> nameTable (Clear x st []) j \<noteq> None)"
proof -
  have a: "\<exists>st'. Evaluator (Suc n) x st (Op m t l r) local fname =
                Some (Inl (EvalError (ReadOnly i)), st')
            \<and> nameTable st' = nameTable st \<and> readonlyNameTable st' = readonlyNameTable st
            \<and> localTable st' = localTable st"
    if h: "i \<in> set (readonlyNameTable st)" "t \<in> set assign_ops" "isObject r"
      "l = NAME k i \<or> l = ARG k (NAME k' i) as"
  proof (rule invalid_target_fails [OF h(2) _ h(3)])
    show "isObject l" using h(4) by auto
    show "validateAssignment s l True = Inl (EvalError (ReadOnly i))"
      if "readonlyNameTable s = readonlyNameTable st" for s
      using readonly_target [of i s l k k' as] h(1,4) that by simp
  qed
  have a2: "\<exists>st'. Evaluator (Suc n) x st
                 (Op m t (Tensor d ((pre @ tg # post) # rows) ty) r) local fname =
                Some (Inl (EvalError (ReadOnly i)), st')
            \<and> nameTable st' = nameTable st \<and> readonlyNameTable st' = readonlyNameTable st
            \<and> localTable st' = localTable st"
    if h: "i \<in> set (readonlyNameTable st)" "t \<in> set assign_ops" "isObject r"
      "tg = NAME k i \<or> tg = ARG k (NAME k' i) as" "d \<noteq> []" "hd d = 1"
      "\<forall>p \<in> set pre.
             (\<exists>q j. p = NAME q j \<and> j \<notin> set (readonlyNameTable st))
           \<or> (\<exists>q q' j bs. p = ARG q (NAME q' j) bs \<and> j \<notin> set (readonlyNameTable st))
           \<or> (\<exists>q. p = Reserved q ''<~>'')"
  proof (rule invalid_target_fails [OF h(2) _ h(3)])
    show "isObject (Tensor d ((pre @ tg # post) # rows) ty)" by simp
    show "validateAssignment s (Tensor d ((pre @ tg # post) # rows) ty) True =
        Inl (EvalError (ReadOnly i))"
      if "readonlyNameTable s = readonlyNameTable st" for s
      using readonly_row [of i s tg k k' as d pre post rows ty] h that by simp
  qed
  have a3: "\<exists>e st'. Evaluator (Suc n) x st (Op m t (Tensor d (row # rows) ty) r) local fname =
                Some (Inl e, st')
            \<and> (e = TypeError \<or> e = EvalError InvalidLeft
                 \<or> (\<exists>j \<in> set (readonlyNameTable st). e = EvalError (ReadOnly j)))
            \<and> nameTable st' = nameTable st \<and> readonlyNameTable st' = readonlyNameTable st
            \<and> localTable st' = localTable st"
    if h: "i \<in> set (readonlyNameTable st)" "t \<in> set assign_ops" "isObject r"
      "tg = NAME k i \<or> tg = ARG k (NAME k' i) as" "tg \<in> set row"
  proof -
    from setParent_object [of "Tensor d (row # rows) ty"] obtain sa where
      sa: "setParent (Tensor d (row # rows) ty)
             (Some (ref (Op m t (Tensor d (row # rows) ty) r))) st = Some (Inr (), sa)"
      by auto
    from setParent_object [OF h(3)] obtain sb where
      sb: "setParent r (Some (ref (Op m t (Tensor d (row # rows) ty) r))) sa = Some (Inr (), sb)"
      by blast
    note fa = setParent_fields [OF sa] and fb = setParent_fields [OF sb]
    have ro: "readonlyNameTable sb = readonlyNameTable st" using fa fb by simp
    from readonly_in_row [of i sb tg k k' as row d rows ty] h(1,4,5) ro obtain e where
      e: "validateAssignment sb (Tensor d (row # rows) ty) True = Inl e"
        "e = TypeError \<or> e = EvalError InvalidLeft
           \<or> (\<exists>j \<in> set (readonlyNameTable st). e = EvalError (ReadOnly j))"
      by auto
    have "Evaluator (Suc n) x st (Op m t (Tensor d (row # rows) ty) r) local fname =
        Some (Inl e, sb)"
      unfolding Evaluator_assign [OF h(2)] eval_assign_def
      by (simp add: sa sb e(1) bindR_simps liftE_def del: validateAssignment.simps ref.simps)
    then show ?thesis using fa fb e(2) by simp
  qed
  have b: "nameTable (Clear x st names) j = nameTable st j"
    if "j \<in> set (readonlyNameTable st)" "names \<noteq> []" for j
    using that by (simp add: Clear_def nameTable_foldl_clear)
  have c: "nameTable (Clear x st []) = nameTable (initialize x bft cmds)"
    by (simp add: Clear_def Restart_def initialize_def loadNativeTable_def seed_tables)
  have d: "nameTable (initialize x bft cmds) j \<noteq> None"
    if "j \<in> set (readonlyNameTable (initialize x bft cmds))" for j
  proof -
    from that have "j \<in> dom (nameTable (initialize x bft cmds))"
      by (auto simp add: initialize_def loadNativeTable_def seed_tables
          dom_map_of_conv_image_fst image_Un image_image)
    then show ?thesis by auto
  qed
  show ?thesis
    apply (intro conjI impI ballI)
    subgoal using a by blast
    subgoal using a2 by blast
    subgoal using a3 by blast
    subgoal using b by blast
    subgoal using c by simp
    subgoal using c d by simp
    done
qed

theorem readonly_protected_witness:
  "map_option fst (Evaluator 3 demo_ext demo_state
       (Op 10 ''='' (NAME 2 ''pi'') (Number 4 0 1)) False []) =
     Some (Inl (EvalError (ReadOnly ''pi'')))
   \<and> map_option fst (Evaluator 3 demo_ext demo_state
       (Op 10 ''+='' (ARG 2 (NAME 3 ''pi'') [Number 1 0 1]) (Number 4 0 1)) False []) =
     Some (Inl (EvalError (ReadOnly ''pi'')))
   \<and> map_option fst (Evaluator 3 demo_ext demo_state
       (Op 10 ''='' (Tensor [1, 2] [ [NAME 2 ''a'', NAME 3 ''pi''] ] 1) (Number 4 0 1)) False []) =
     Some (Inl (EvalError (ReadOnly ''pi'')))
   \<and> nameTable (snd (the (Evaluator 3 demo_ext demo_state
       (Op 10 ''='' (Tensor [1, 2] [ [NAME 2 ''a'', NAME 3 ''pi''] ] 1) (Number 4 0 1)) False []))) =
     nameTable demo_state
   \<and> map_option fst (Evaluator 3 demo_ext demo_state
       (Op 10 ''='' (Tensor [1, 1] [ [NAME 3 ''pi''] ] 1) (Number 4 0 1)) False []) =
     Some (Inl (EvalError (ReadOnly ''pi'')))
   \<and> nameTable (Clear demo_ext demo_state [''pi'']) ''pi'' =
       Some \<lparr>args = [], expr = Number 3 0 1\<rparr>
   \<and> nameTable (Clear demo_ext demo_state []) ''pi'' =
       Some \<lparr>args = [], expr = Number 3 0 1\<rparr>"
proof -
  have ro: "''pi'' \<in> set (readonlyNameTable demo_state)"
    "''a'' \<notin> set (readonlyNameTable demo_state)"
    by (simp_all add: demo_state_readonly)
  have ro': "''pi'' \<in> set (readonlyNameTable (initialize demo_ext Map.empty []))"
    using ro by (simp add: demo_state_def)
  have pi: "nameTable (initialize demo_ext Map.empty []) ''pi'' =
      Some \<lparr>args = [], expr = Number 3 0 1\<rparr>"
    using demo_state_pi by (simp add: demo_state_def)
  have op: "''='' \<in> set assign_ops" "''+='' \<in> set assign_ops"
    by (simp_all add: assign_ops_def)
  have n3: "Suc 2 = 3" by simp
  have "\<exists>st'. Evaluator 3 demo_ext demo_state
       (Op 10 ''='' (NAME 2 ''pi'') (Number 4 0 1)) False [] =
         Some (Inl (EvalError (ReadOnly ''pi'')), st')
       \<and> nameTable st' = nameTable demo_state
       \<and> readonlyNameTable st' = readonlyNameTable demo_state
       \<and> localTable st' = localTable demo_state"
    by (rule readonly_protected [where k = 2 and k' = 0 and as = "[]" and n = 2,
          THEN conjunct1, THEN mp, unfolded n3]) (simp add: ro op)
  then have a: "map_option fst (Evaluator 3 demo_ext demo_state
       (Op 10 ''='' (NAME 2 ''pi'') (Number 4 0 1)) False []) =
     Some (Inl (EvalError (ReadOnly ''pi'')))"
    by auto
  have "\<exists>st'. Evaluator 3 demo_ext demo_state
       (Op 10 ''+='' (ARG 2 (NAME 3 ''pi'') [Number 1 0 1]) (Number 4 0 1)) False [] =
         Some (Inl (EvalError (ReadOnly ''pi'')), st')
       \<and> nameTable st' = nameTable demo_state
       \<and> readonlyNameTable st' = readonlyNameTable demo_state
       \<and> localTable st' = localTable demo_state"
    by (rule readonly_protected [where k = 2 and k' = 3 and as = "[Number 1 0 1]" and n = 2,
          THEN conjunct1, THEN mp, unfolded n3]) (simp add: ro op)
  then have b: "map_option fst (Evaluator 3 demo_ext demo_state
       (Op 10 ''+='' (ARG 2 (NAME 3 ''pi'') [Number 1 0 1]) (Number 4 0 1)) False []) =
     Some (Inl (EvalError (ReadOnly ''pi'')))"
    by auto
  have "\<exists>st'. Evaluator 3 demo_ext demo_state
       (Op 10 ''='' (Tensor [1, 2] (([NAME 2 ''a''] @ NAME 3 ''pi'' # []) # []) 1)
          (Number 4 0 1)) False [] =
         Some (Inl (EvalError (ReadOnly ''pi'')), st')
       \<and> nameTable st' = nameTable demo_state
       \<and> readonlyNameTable st' = readonlyNameTable demo_state
       \<and> localTable st' = localTable demo_state"
    by (rule readonly_protected [where k = 3 and k' = 0 and as = "[]" and n = 2,
          THEN conjunct2, THEN conjunct1, THEN mp, unfolded n3]) (simp add: ro op)
  then obtain s1 where s1: "Evaluator 3 demo_ext demo_state
       (Op 10 ''='' (Tensor [1, 2] [ [NAME 2 ''a'', NAME 3 ''pi''] ] 1) (Number 4 0 1)) False [] =
     Some (Inl (EvalError (ReadOnly ''pi'')), s1)" "nameTable s1 = nameTable demo_state"
    by auto
  have "\<exists>st'. Evaluator 3 demo_ext demo_state
       (Op 10 ''='' (Tensor [1, 1] (([] @ NAME 3 ''pi'' # []) # []) 1)
          (Number 4 0 1)) False [] =
         Some (Inl (EvalError (ReadOnly ''pi'')), st')
       \<and> nameTable st' = nameTable demo_state
       \<and> readonlyNameTable st' = readonlyNameTable demo_state
       \<and> localTable st' = localTable demo_state"
    by (rule readonly_protected [where k = 3 and k' = 0 and as = "[]" and n = 2,
          THEN conjunct2, THEN conjunct1, THEN mp, unfolded n3]) (simp add: ro op)
  then obtain s2 where s2: "Evaluator 3 demo_ext demo_state
       (Op 10 ''='' (Tensor [1, 1] [ [NAME 3 ''pi''] ] 1) (Number 4 0 1)) False [] =
     Some (Inl (EvalError (ReadOnly ''pi'')), s2)"
    by auto
  have c: "nameTable (Clear demo_ext demo_state [''pi'']) ''pi'' =
       Some \<lparr>args = [], expr = Number 3 0 1\<rparr>"
    using readonly_protected [where st = demo_state and names = "[''pi'']" and x = demo_ext,
        THEN conjunct2, THEN conjunct2, THEN conjunct2, THEN conjunct1] ro demo_state_pi
    by simp
  have d: "nameTable (Clear demo_ext demo_state []) ''pi'' =
       Some \<lparr>args = [], expr = Number 3 0 1\<rparr>"
    using readonly_protected [where x = demo_ext and bft = Map.empty and cmds = "[]"
        and st = demo_state, THEN conjunct2, THEN conjunct2, THEN conjunct2, THEN conjunct2]
      ro' pi
    by simp
  show ?thesis using a b s1 s2 c d by simp
qed

subsection \<open>Reading a name\<close>

lemma demo_state_f_fields:
  "nameTable demo_state_f ''f'' =
     Some \<lparr>args = [NAME 5 ''x''], expr = Op 6 ''+'' (NAME 7 ''x'') (Number 1 0 1)\<rparr>"
  "nameTable demo_state_f ''x'' = Some \<lparr>args = [], expr = NAME 3 ''y''\<rparr>"
  "nameTable demo_state_f ''y'' = Some \<lparr>args = [], expr = Number 5 0 1\<rparr>"
  "nameTable demo_state_f ''zz'' = None"
  "nameTable demo_state_f ''toString'' = None"
  "nameTable demo_state_f ''__proto__'' = None"
  "localTable demo_state_f = [''f'' \<mapsto> (0, [''x'' \<mapsto> Number 9 0 1])]"
  "baseFunctionTable demo_state_f = Map.empty"
  "parents demo_state_f = Map.empty"
  "indexes demo_state_f = Map.empty"
  "fresh demo_state_f = 100"
  "commandsTable demo_state_f = []"
  by (simp_all add: demo_state_f_def demo_state_fields)
    (simp_all add: demo_state_def initialize_def loadNativeTable_def
      nativeNames_def seed_def demo_ext_def)





text \<open>
  The names left out of the statement above.  \<open>tree.id in this.nameTable\<close> holds of a name
  that the table object inherits, and what is found has no \<open>args\<close>: reading the name
  \<open>toString\<close>, bound nowhere, ends in a TypeError, not in the undefined-name error.
\<close>

lemma NAME_inherited_key:
  "Evaluator 3 demo_ext demo_state_f (NAME 20 ''toString'') False [] =
     Some (Inl TypeError, demo_state_f)"
  by (simp add: localLookup_def demo_state_f_fields Evaluator_numeral eval_NAME_def throw_def
      tableGet_def liftE_def bindR_simps protoKeys_def)

subsection \<open>Resolution of end and of the colon\<close>

lemma walkARG_simps:
  "walkARG st None = Some (Inl TypeError)"
  "walkARG st (Some LNull) = Some (Inr LNull)"
  "walkARG st (Some (LRef p ty key na)) =
     (if ty = TStr ''ARG'' then Some (Inr (LRef p ty key na)) else walkARG st (parents st p))"
  by (subst walkARG.simps, simp)+

text \<open>A node that is its own parent and is no ARG node: the loop never ends.\<close>

lemma walkARG_self_loop:
  assumes "parents st p = Some (LRef p ty key na)" and "ty \<noteq> TStr ''ARG''"
  shows "walkARG st (Some (LRef p ty key na)) = None"
proof -
  have a: "s = st \<longrightarrow> l \<noteq> Some (LRef p ty key na)" if w: "walkARG s l = Some y" for s l y
  proof (rule walkARG.raw_induct
      [where P = "\<lambda>s l y. s = st \<longrightarrow> l \<noteq> Some (LRef p ty key na)", OF _ w])
    fix walk s' l' y'
    assume ih: "\<And>s l y. walk s l = Some y \<Longrightarrow> s = st \<longrightarrow> l \<noteq> Some (LRef p ty key na)"
      and body: "(case l' of
          None \<Rightarrow> Some (Inl TypeError)
        | Some LNull \<Rightarrow> Some (Inr LNull)
        | Some (LRef p ty key na) \<Rightarrow>
            if ty = TStr ''ARG'' then Some (Inr (LRef p ty key na))
            else walk s' (parents s' p)) = Some y'"
    show "s' = st \<longrightarrow> l' \<noteq> Some (LRef p ty key na)"
    proof (intro impI notI)
      assume h: "s' = st" "l' = Some (LRef p ty key na)"
      from body h assms have "walk st (Some (LRef p ty key na)) = Some y'" by simp
      from ih [OF this] show False by simp
    qed
  qed
  show ?thesis
  proof (cases "walkARG st (Some (LRef p ty key na))")
    case None
    then show ?thesis .
  next
    case (Some y)
    from a [OF this] show ?thesis by simp
  qed
qed

text \<open>One step of the loop, in the form used to run it on a concrete store.\<close>

lemma walkARG_step:
  "walkARG st None = Some (Inl TypeError)"
  "walkARG st (Some LNull) = Some (Inr LNull)"
  "walkARG st (Some (LRef p ty key na)) =
     (if ty = TStr ''ARG'' then Some (Inr (LRef p ty key na))
      else if parents st p = Some (LRef p ty key na) then None
      else walkARG st (parents st p))"
proof -
  show "walkARG st None = Some (Inl TypeError)" by (rule walkARG_simps)
  show "walkARG st (Some LNull) = Some (Inr LNull)" by (rule walkARG_simps)
  show "walkARG st (Some (LRef p ty key na)) =
     (if ty = TStr ''ARG'' then Some (Inr (LRef p ty key na))
      else if parents st p = Some (LRef p ty key na) then None
      else walkARG st (parents st p))"
  proof (cases "ty \<noteq> TStr ''ARG'' \<and> parents st p = Some (LRef p ty key na)")
    case True
    then show ?thesis using walkARG_self_loop [of st p ty key na] by simp
  next
    case False
    then show ?thesis by (subst walkARG_simps(3)) auto
  qed
qed

lemma demo_state_A_parsed_fields:
  "nameTable demo_state_A_parsed ''A'' = Some \<lparr>args = [], expr = demo_A\<rparr>"
  "nameTable demo_state_A_parsed ''__proto__'' = None"
  "baseFunctionTable demo_state_A_parsed ''A'' = None"
  "localTable demo_state_A_parsed = Map.empty"
  "parents demo_state_A_parsed = [5 \<mapsto> LRef 9 (TStr ''LIST'') [] 0,
                              6 \<mapsto> LRef 9 (TStr ''LIST'') [] 0]"
  "indexes demo_state_A_parsed = Map.empty"
  "fresh demo_state_A_parsed = 100"
  "commandsTable demo_state_A_parsed = []"
  by (simp_all add: demo_state_A_parsed_def demo_state_A_fields)

lemma demo_ext_indexing:
  "getItems demo_ext = (\<lambda>t name idx. Inr (Tensor [1, length idx] [idx] 1))"
  "expandRange demo_ext = (\<lambda>a b c. Inl (EvalError (External ''expandRange'')))"
  "linearLength demo_ext = (\<lambda>t. case t of Tensor d a c \<Rightarrow> Inr (int (prod_list d))
                               | _ \<Rightarrow> Inl TypeError)"
  "getDimension demo_ext = (\<lambda>t k. case (t, k) of
                         (Tensor d a c, Some j) \<Rightarrow>
                            if j < length d then Inr (int (d ! j)) else Inl TypeError
                       | _ \<Rightarrow> Inl TypeError)"
  by (simp_all add: demo_ext_def)

text \<open>
  C1.  The statements are run from the root, by \<open>Evaluate\<close>, with \<open>A\<close> bound to a 3-by-4
  tensor.  \<open>A(end)\<close>, which the claim gives the linear length 12, ends in a TypeError: the
  evaluator does not link a lone subscript to its ARG node, so the walk starts from a node
  without parent, or from the list node the parser has left there, which has none; the
  same holds of \<open>A(1:end)\<close>.  With several subscripts the dimension is read from the
  \<open>index\<close> of the parent of \<open>end\<close>, which for a direct subscript is the ARG node and its
  position among the statements: \<open>A(2, end)\<close> as first statement passes the subscripts 2
  and 3 (the number of rows) where the claim gives 4, and \<open>A(end, 2)\<close> as second statement
  passes 4 and 2 where the claim gives 3.  In \<open>A(abs(end), 1)\<close> the walk stops at the call of
  \<open>abs\<close>, the nearest ARG node, and the evaluation fails with the SyntaxError although an
  indexing of \<open>A\<close> encloses the \<open>end\<close>.
\<close>

theorem end_resolution_fails:
  "map_option fst (Evaluate 5 demo_ext demo_state_A demo_A_end) = Some (Inl TypeError)
   \<and> map_option fst (Evaluate 5 demo_ext demo_state_A_parsed demo_A_end) = Some (Inl TypeError)
   \<and> map_option fst (Evaluate 5 demo_ext demo_state_A demo_A_range_end) = Some (Inl TypeError)
   \<and> map_option fst (Evaluate 5 demo_ext demo_state_A_parsed demo_A_range_end) =
       Some (Inl TypeError)
   \<and> map_option fst (Evaluate 5 demo_ext demo_state_A demo_A_2_end) =
       Some (Inr (LIST 100 [Tensor [1, 2] [ [Number 2 0 1, Number 3 0 1] ] 1]))
   \<and> map_option fst (Evaluate 5 demo_ext demo_state_A demo_A_end_2) =
       Some (Inr (LIST 100 [Number 7 0 1, Tensor [1, 2] [ [Number 4 0 1, Number 2 0 1] ] 1]))
   \<and> map_option fst (Evaluate 6 demo_ext demo_state_A demo_end_in_call) =
       Some (Inl (SyntaxError IndeterminateEnd))"
proof -
  note e = eval_defs walkARG_step demo_ext_fields demo_A_def demo_ext_indexing
    Evaluator_numeral Let_def
  have 1: "map_option fst (Evaluate 5 demo_ext demo_state_A demo_A_end) = Some (Inl TypeError)"
    by (simp add: demo_A_end_def e demo_state_A_fields cong: bindR_cong let_weak_cong)
  have 2: "map_option fst (Evaluate 5 demo_ext demo_state_A_parsed demo_A_end) =
      Some (Inl TypeError)"
    by (simp add: demo_A_end_def e demo_state_A_parsed_fields cong: bindR_cong let_weak_cong)
  have 3: "map_option fst (Evaluate 5 demo_ext demo_state_A demo_A_range_end) =
      Some (Inl TypeError)"
    by (simp add: demo_A_range_end_def e demo_state_A_fields cong: bindR_cong let_weak_cong)
  have 4: "map_option fst (Evaluate 5 demo_ext demo_state_A_parsed demo_A_range_end) =
      Some (Inl TypeError)"
    by (simp add: demo_A_range_end_def e demo_state_A_parsed_fields
        cong: bindR_cong let_weak_cong)
  have 5: "map_option fst (Evaluate 5 demo_ext demo_state_A demo_A_2_end) =
      Some (Inr (LIST 100 [Tensor [1, 2] [ [Number 2 0 1, Number 3 0 1] ] 1]))"
    by (simp add: demo_A_2_end_def e demo_state_A_fields cong: bindR_cong let_weak_cong)
  have 6: "map_option fst (Evaluate 5 demo_ext demo_state_A demo_A_end_2) =
      Some (Inr (LIST 100 [Number 7 0 1, Tensor [1, 2] [ [Number 4 0 1, Number 2 0 1] ] 1]))"
    by (simp add: demo_A_end_2_def e demo_state_A_fields cong: bindR_cong let_weak_cong)
  have 7: "map_option fst (Evaluate 6 demo_ext demo_state_A demo_end_in_call) =
      Some (Inl (SyntaxError IndeterminateEnd))"
    by (simp add: demo_end_in_call_def e demo_state_A_fields cong: bindR_cong let_weak_cong)
  show ?thesis by (intro conjI 1 2 3 4 5 6 7)
qed

subsection \<open>A plain assignment whose right-hand side fails\<close>

lemma demo_state_x1_fields:
  "nameTable demo_state_x1 ''x'' = Some \<lparr>args = [], expr = Number 1 0 1\<rparr>"
  "nameTable demo_state_x1 ''y'' = None"
  "nameTable demo_state_x1 ''f'' = None"
  "nameTable demo_state_x1 ''t'' = None"
  "nameTable demo_state_x1 ''constructor'' = None"
  "nameTable demo_state_x1 ''__proto__'' = None"
  "baseFunctionTable demo_state_x1 = Map.empty"
  "localTable demo_state_x1 = Map.empty"
  "indexes demo_state_x1 = Map.empty"
  "fresh demo_state_x1 = 100"
  "commandsTable demo_state_x1 = []"
  "parents demo_state_x1 = Map.empty"
  "readonlyNameTable demo_state_x1 =
     [''false'', ''true'', ''i'', ''I'', ''j'', ''J'', ''e'', ''pi'', ''inf'', ''Inf'', ''nan'',
      ''NaN'', ''c'']"
  by (simp_all add: demo_state_x1_def demo_state_fields demo_state_readonly)
    (simp_all add: demo_state_def initialize_def loadNativeTable_def
      nativeNames_def seed_def demo_ext_def)

text \<open>
  A name bound to a binary operation whose left operand is the name itself cannot be
  read: whatever room the call stack has, the evaluation exhausts it.
\<close>

lemma self_reference_unreadable:
  assumes "nameTable st i = Some \<lparr>args = [], expr = Op k t (NAME a i) r\<rparr>"
    and "t \<in> set binary_ops" and "isObject r"
  shows "\<exists>st'. Evaluator n x st (NAME m i) False [] = Some (Inl RangeError, st')
            \<and> nameTable st' = nameTable st"
  using assms(1)
proof (induction n arbitrary: st m rule: less_induct)
  case (less n)
  show ?case
  proof (cases n)
    case 0
    then show ?thesis by (simp add: throw_def)
  next
    case (Suc n')
    let ?e = "Op k t (NAME a i) r"
    let ?s1 = "st\<lparr>parents := (parents st)(k \<mapsto> LRef m (TStr ''NAME'') [] 0)\<rparr>"
    have name: "Evaluator (Suc n') x st (NAME m i) False [] =
        bindR (Evaluator n' x ?s1 ?e False []) reduceIfReturnList"
      using less.prems
      by (simp add: eval_NAME_def localLookup_def tableGet_def liftE_def bindR_simps
          setParent_def ret_def evalReduce_def)
    show ?thesis
    proof (cases n')
      case 0
      then show ?thesis using Suc name by (simp add: throw_def bindR_simps)
    next
      case (Suc n'')
      from setParent_object [OF assms(3)] obtain s3 where
        s3: "setParent r (Some (ref ?e)) (?s1\<lparr>parents := (parents ?s1)(a \<mapsto> ref ?e)\<rparr>) =
               Some (Inr (), s3)"
        by blast
      have nt3: "nameTable s3 = nameTable st"
        using setParent_fields [OF s3] by simp
      have "n'' < n" using \<open>n = Suc n'\<close> Suc by simp
      from less.IH [OF this, of s3 a] less.prems nt3 obtain st' where
        st': "Evaluator n'' x s3 (NAME a i) False [] = Some (Inl RangeError, st')"
          "nameTable st' = nameTable st"
        by auto
      have "Evaluator (Suc n'') x ?s1 ?e False [] = Some (Inl RangeError, st')"
        using assms(2) s3 st'(1)
        by (simp add: setParent_def ret_def bindR_simps evalReduce_def del: ref.simps)
      then show ?thesis
        using \<open>n = Suc n'\<close> Suc name st'(2) by (simp add: bindR_simps)
    qed
  qed
qed


text \<open>
  Where the claim holds: \<open>x = y\<close> with \<open>y\<close> unbound stores the right-hand side node \<open>y\<close>
  as the entry of \<open>x\<close> and throws the undefined-name error again.
\<close>

lemma failed_plain_assignment:
  "Evaluate 6 demo_ext demo_state_x1 demo_x_assign_y =
     Some (Inl (EvalError (UndefinedName ''y'')),
           demo_state_x1\<lparr>indexes := [10 \<mapsto> 0], fresh := 102,
             parents := [0 \<mapsto> LNull, 100 \<mapsto> LNull, 10 \<mapsto> LRef 100 (TStr ''LIST'') [] 0,
                         2 \<mapsto> LRef 10 (TStr ''='') [] 0, 3 \<mapsto> LRef 3 (TStr ''NAME'') [] 0],
             nameTable := (nameTable demo_state_x1)(''x'' \<mapsto> \<lparr>args = [], expr = NAME 3 ''y''\<rparr>),
             exitStatus := 3\<rparr>)"
  by (simp add: demo_x_assign_y_def eval_defs demo_ext_fields demo_state_x1_fields
      demo_tensorFn_def Evaluator_numeral Let_def cong: bindR_cong let_weak_cong)

text \<open>
  C3.  \<open>x += y\<close> with \<open>x\<close> bound to 1 and \<open>y\<close> unbound: the error of \<open>y\<close> is thrown
  again, and the entry of \<open>x\<close> is left holding not the right-hand side \<open>y\<close> but the node
  \<open>x + y\<close>, which the evaluator has built and which refers to \<open>x\<close> itself; from then on
  every read of \<open>x\<close> exhausts the call stack, whatever its depth.  \<open>x = end\<close>: the first
  evaluation of the right-hand side fails and the error is discarded; the evaluator then
  makes the \<open>end\<close> node its own parent and evaluates it again, and the walk along the
  parents never ends: whatever room the stack has for the three nested calls, the
  statement does not return, nothing is stored and no error reaches the caller.
\<close>

theorem failed_assignment_self_reference:
  "Evaluate 6 demo_ext demo_state_x1 demo_x_add_assign_y =
     Some (Inl (EvalError (UndefinedName ''y'')),
           demo_state_x1\<lparr>indexes := [10 \<mapsto> 0], fresh := 103,
             parents := [0 \<mapsto> LNull, 100 \<mapsto> LNull, 10 \<mapsto> LRef 100 (TStr ''LIST'') [] 0,
                         2 \<mapsto> LRef 102 (TStr ''+'') [] 0, 3 \<mapsto> LRef 102 (TStr ''+'') [] 0],
             nameTable := (nameTable demo_state_x1)
               (''x'' \<mapsto> \<lparr>args = [], expr = Op 102 ''+'' (NAME 2 ''x'') (NAME 3 ''y'')\<rparr>),
             exitStatus := 3\<rparr>)
   \<and> map_option fst (Evaluator n demo_ext
         (snd (the (Evaluate 6 demo_ext demo_state_x1 demo_x_add_assign_y)))
         (NAME 21 ''x'') False []) = Some (Inl RangeError)
   \<and> Evaluate (Suc (Suc (Suc n))) demo_ext demo_state_x1 demo_x_assign_end = None"
proof -
  have 1: "Evaluate 6 demo_ext demo_state_x1 demo_x_add_assign_y =
     Some (Inl (EvalError (UndefinedName ''y'')),
           demo_state_x1\<lparr>indexes := [10 \<mapsto> 0], fresh := 103,
             parents := [0 \<mapsto> LNull, 100 \<mapsto> LNull, 10 \<mapsto> LRef 100 (TStr ''LIST'') [] 0,
                         2 \<mapsto> LRef 102 (TStr ''+'') [] 0, 3 \<mapsto> LRef 102 (TStr ''+'') [] 0],
             nameTable := (nameTable demo_state_x1)
               (''x'' \<mapsto> \<lparr>args = [], expr = Op 102 ''+'' (NAME 2 ''x'') (NAME 3 ''y'')\<rparr>),
             exitStatus := 3\<rparr>)"
    by (simp add: demo_x_add_assign_y_def eval_defs demo_ext_fields demo_state_x1_fields
        demo_tensorFn_def Evaluator_numeral Let_def cong: bindR_cong let_weak_cong)
  have 2: "map_option fst (Evaluator n demo_ext
         (snd (the (Evaluate 6 demo_ext demo_state_x1 demo_x_add_assign_y)))
         (NAME 21 ''x'') False []) = Some (Inl RangeError)"
    using self_reference_unreadable [where i = "''x''" and k = 102 and t = "''+''" and a = 2
        and r = "NAME 3 ''y''" and n = n and x = demo_ext and m = 21
        and st = "snd (the (Evaluate 6 demo_ext demo_state_x1 demo_x_add_assign_y))"]
    unfolding 1 by (auto simp: binary_ops_def)
  have 3: "Evaluate (Suc (Suc (Suc n))) demo_ext demo_state_x1 demo_x_assign_end = None"
    by (simp add: demo_x_assign_end_def eval_defs walkARG_step demo_ext_fields
        demo_state_x1_fields demo_tensorFn_def Let_def cong: bindR_cong let_weak_cong)
  show ?thesis by (intro conjI 1 2 3)
qed

subsection \<open>Function definition or indexed assignment\<close>













lemma assign_not_other':
  "''='' \<in> set assign_ops" by (simp add: assign_ops_def)





text \<open>
  The argument names left out of the statement above.  A name that the name table
  inherits counts as defined: \<open>f(constructor) = 5\<close> stores no function; it is taken for an
  indexed assignment, whose subscript \<open>constructor\<close> then fails to evaluate.
\<close>

lemma function_definition_inherited_key:
  "Evaluate 6 demo_ext demo_state_x1 demo_define_f_inherited =
     Some (Inl TypeError,
       demo_state_x1\<lparr>indexes := [10 \<mapsto> 0],
         parents := [0 \<mapsto> LNull, 100 \<mapsto> LNull, 10 \<mapsto> LRef 100 (TStr ''LIST'') [] 0,
                     2 \<mapsto> LRef 10 (TStr ''='') [] 0],
         fresh := 102, exitStatus := 3\<rparr>)"
  by (simp add: demo_define_f_inherited_def eval_defs demo_ext_fields demo_state_x1_fields
      demo_tensorFn_def Evaluator_numeral Let_def demo_ext_def cong: bindR_cong let_weak_cong)

end
